theory Spec2Isabelle
  imports Complex_Main "HOL-Library.AList"
begin

section \<open>Forecaster wrappers of \<^verbatim>\<open>pyzoo/zoo/zouwu/model/forecast.py\<close>\<close>

text \<open>
  The module defines three classes: the abstract base \<^verbatim>\<open>Forecaster\<close> and the two leaf
  classes \<^verbatim>\<open>LSTMForecaster\<close> and \<^verbatim>\<open>MTNetForecaster\<close>. All they do is store
  hyperparameters on \<^verbatim>\<open>self\<close> and call into classes of other libraries
  (\<^verbatim>\<open>VanillaLSTM\<close>, \<^verbatim>\<open>MTNetKeras\<close>, \<^verbatim>\<open>tfpark.KerasModel\<close>).

  The embedding keeps Python's object model explicit: values are dynamically typed,
  an instance is a dictionary of attributes living at an address of a heap, reading an
  attribute that is not there raises \<^verbatim>\<open>AttributeError\<close>, every call that leaves
  this module is appended to a trace together with the arguments it was given, and every
  attribute assignment that the module itself executes is appended to a list of writes.
  An exception ends the computation and leaves the heap, the trace and the writes as
  they are at that moment.
\<close>

subsection \<open>Values, errors, objects\<close>

text \<open>
  Python values as far as this module handles them. \<open>PExt\<close> is an object of the
  external libraries (a compiled tf.keras model, an array), opaque to this module.
  Floats are only stored and forwarded, never computed with.
\<close>

datatype 'm val =
    PNone
  | PBool bool
  | PInt int
  | PFloat real
  | PStr string
  | PList "'m val list"
  | PDict "(string \<times> 'm val) list"
  | PRef nat
  | PExt 'm

type_synonym 'm dict = "(string \<times> 'm val) list"

datatype error = TypeError | AttributeError | Raised string

datatype cls = Forecaster | LSTMForecaster | MTNetForecaster | LSTMKerasModel | MTNetKerasModel

text \<open>
  An instance: its class, its attribute dictionary (insertion ordered, as
  \<^verbatim>\<open>__dict__\<close> is), and the state that the base initializer
  \<^verbatim>\<open>TFParkKerasModel.__init__\<close> sets up, which is kept apart from the attributes
  assigned in this module (\<open>None\<close> until that initializer has run).
\<close>

record 'm obj =
  cls_of :: cls
  attrs :: "'m dict"
  base :: "'m val option"

text \<open>The calls that leave the module, with what they are given.\<close>

datatype 'm call =
    Call_LSTMKerasModel_init "'m dict"
  | Call_LSTMKerasModel_build "'m dict" "'m dict"
  | Call_MTNetKerasModel_init "'m dict"
  | Call_MTNetKerasModel_get_attributes "'m dict" "'m dict"
  | Call_MTNetKerasModel_build_train "'m dict" "'m dict"
  | Call_MTNetKerasModel_gen_hist_inputs "'m dict" "'m val"
  | Call_TFParkKerasModel_init "'m val"

record 'm state =
  heap :: "nat \<rightharpoonup> 'm obj"
  next_addr :: nat
  trace :: "'m call list"
  writes :: "(nat \<times> string) list"

text \<open>
  The routines of the external libraries are parameters, and each of them may raise.
  The initializer of an internal model class receives the keyword arguments; it raises,
  or returns the attributes of the new instance. A method of an internal model receives
  the attributes of its receiver and its arguments; it raises, or returns the receiver's
  attributes as it leaves them and its return value. \<open>TFParkKerasModel_init\<close>
  receives the model and raises or returns the base state.

  Arguments are handed over as values. A dictionary or list that the module passes to an
  external routine is the object itself in Python (\<^verbatim>\<open>config=self.model_config\<close>), so
  the callee may change it; that effect is not part of the model. What the statements
  below say about a dictionary is what the module itself stores and passes.
\<close>

record 'm ext =
  LSTMKerasModel_init :: "'m dict \<Rightarrow> error + 'm dict"
  MTNetKerasModel_init :: "'m dict \<Rightarrow> error + 'm dict"
  LSTMKerasModel_build :: "'m dict \<Rightarrow> 'm dict \<Rightarrow> error + 'm dict \<times> 'm val"
  MTNetKerasModel_get_attributes :: "'m dict \<Rightarrow> 'm dict \<Rightarrow> error + 'm dict \<times> 'm val"
  MTNetKerasModel_build_train :: "'m dict \<Rightarrow> 'm dict \<Rightarrow> error + 'm dict \<times> 'm val"
  MTNetKerasModel_gen_hist_inputs :: "'m dict \<Rightarrow> 'm val \<Rightarrow> error + 'm dict \<times> 'm val"
  TFParkKerasModel_init :: "'m val \<Rightarrow> error + 'm val"

subsection \<open>Computations\<close>

text \<open>
  A statement or expression of the module, run in a state: it raises or returns a value,
  and leaves a state in both cases.
\<close>

type_synonym ('a, 'm) comp = "'m state \<Rightarrow> (error + 'a) \<times> 'm state"

definition returnS :: "'a \<Rightarrow> ('a, 'm) comp" where
  "returnS x s = (Inr x, s)"

definition liftE :: "error + 'a \<Rightarrow> ('a, 'm) comp" where
  "liftE r s = (r, s)"

text \<open>Sequencing: an exception raised by a step ends the whole computation.\<close>

definition bindS :: "('a, 'm) comp \<Rightarrow> ('a \<Rightarrow> ('b, 'm) comp) \<Rightarrow> ('b, 'm) comp" where
  "bindS m f s = (case m s of (Inl e, s') \<Rightarrow> (Inl e, s') | (Inr x, s') \<Rightarrow> f x s')"

subsection \<open>Python primitives\<close>

definition alloc :: "cls \<Rightarrow> (nat, 'm) comp" where
  "alloc c s =
     (Inr (next_addr s),
      s\<lparr>heap := (heap s)(next_addr s \<mapsto> \<lparr>cls_of = c, attrs = [], base = None\<rparr>),
        next_addr := Suc (next_addr s)\<rparr>)"

text \<open>\<^verbatim>\<open>obj.k = v\<close>, executed by the module: the assignment is recorded in the writes.\<close>

definition setattr :: "nat \<Rightarrow> string \<Rightarrow> 'm val \<Rightarrow> (unit, 'm) comp" where
  "setattr a k v s =
     (case heap s a of
        None \<Rightarrow> (Inl AttributeError, s)
      | Some ob \<Rightarrow>
          (Inr (), s\<lparr>heap := (heap s)(a \<mapsto> ob\<lparr>attrs := AList.update k v (attrs ob)\<rparr>),
                     writes := writes s @ [(a, k)]\<rparr>))"

text \<open>\<^verbatim>\<open>obj.k\<close>: \<^verbatim>\<open>AttributeError\<close> when the instance has no such attribute.\<close>

definition getattr :: "nat \<Rightarrow> string \<Rightarrow> ('m val, 'm) comp" where
  "getattr a k s =
     (case heap s a of
        None \<Rightarrow> (Inl AttributeError, s)
      | Some ob \<Rightarrow>
          (case map_of (attrs ob) k of
             None \<Rightarrow> (Inl AttributeError, s)
           | Some v \<Rightarrow> (Inr v, s)))"

text \<open>\<^verbatim>\<open>hasattr(obj, k)\<close>\<close>

definition hasattr :: "nat \<Rightarrow> string \<Rightarrow> 'm state \<Rightarrow> bool" where
  "hasattr a k s = (case fst (getattr a k s) of Inl e \<Rightarrow> False | Inr v \<Rightarrow> True)"

text \<open>\<^verbatim>\<open>d.get(k)\<close>: \<^verbatim>\<open>None\<close> for a missing key; only a dict has the method.\<close>

definition dict_get :: "'m val \<Rightarrow> string \<Rightarrow> error + 'm val" where
  "dict_get d k =
     (case d of
        PDict kvs \<Rightarrow> Inr (case map_of kvs k of None \<Rightarrow> PNone | Some v \<Rightarrow> v)
      | _ \<Rightarrow> Inl AttributeError)"

text \<open>
  The keyword arguments of \<^verbatim>\<open>f(k1=v1, ..., **d)\<close>: \<^verbatim>\<open>TypeError\<close> when \<open>d\<close> is
  not a mapping or repeats an explicit keyword.
\<close>

definition call_kwargs :: "'m dict \<Rightarrow> 'm val \<Rightarrow> error + 'm dict" where
  "call_kwargs explicit star =
     (case star of
        PDict kvs \<Rightarrow>
          if list_ex (\<lambda>k. k \<in> set (map fst explicit)) (map fst kvs)
          then Inl TypeError
          else Inr (explicit @ kvs)
      | _ \<Rightarrow> Inl TypeError)"

text \<open>
  The receiver of a method of class \<open>c\<close>: the value must refer to an instance of
  \<open>c\<close> (\<^verbatim>\<open>None\<close>, for one, has no such method).
\<close>

definition method_receiver :: "cls \<Rightarrow> 'm val \<Rightarrow> (nat, 'm) comp" where
  "method_receiver c v s =
     (case v of
        PRef a \<Rightarrow>
          (case heap s a of
             None \<Rightarrow> (Inl AttributeError, s)
           | Some ob \<Rightarrow> if cls_of ob = c then (Inr a, s) else (Inl AttributeError, s))
      | _ \<Rightarrow> (Inl AttributeError, s))"

text \<open>
  A call of an external method \<open>f\<close> on the instance at \<open>a\<close>: the call is logged
  with the receiver's attributes at that moment; when \<open>f\<close> returns, the receiver is
  left as \<open>f\<close> leaves it.
\<close>

definition call_ext ::
  "('m dict \<Rightarrow> 'a \<Rightarrow> error + 'm dict \<times> 'm val) \<Rightarrow> ('m dict \<Rightarrow> 'a \<Rightarrow> 'm call) \<Rightarrow>
   nat \<Rightarrow> 'a \<Rightarrow> ('m val, 'm) comp" where
  "call_ext f lg a x s =
     (case heap s a of
        None \<Rightarrow> (Inl AttributeError, s)
      | Some ob \<Rightarrow>
          (let s = s\<lparr>trace := trace s @ [lg (attrs ob) x]\<rparr>
           in case f (attrs ob) x of
                Inl e \<Rightarrow> (Inl e, s)
              | Inr (attrs', r) \<Rightarrow>
                  (Inr r, s\<lparr>heap := (heap s)(a \<mapsto> ob\<lparr>attrs := attrs'\<rparr>)\<rparr>)))"

text \<open>
  A call of an external class \<open>c\<close> with keyword arguments \<open>kw\<close>: the call is
  logged; when the initializer \<open>f\<close> raises, so does the call; when it returns, a new
  instance of \<open>c\<close> with the attributes it gives is allocated.
\<close>

definition new_ext ::
  "cls \<Rightarrow> ('m dict \<Rightarrow> error + 'm dict) \<Rightarrow> ('m dict \<Rightarrow> 'm call) \<Rightarrow> 'm dict \<Rightarrow>
   (nat, 'm) comp" where
  "new_ext c f lg kw s =
     (let s = s\<lparr>trace := trace s @ [lg kw]\<rparr>
      in case f kw of
           Inl e \<Rightarrow> (Inl e, s)
         | Inr a0 \<Rightarrow>
             (Inr (next_addr s),
              s\<lparr>heap := (heap s)(next_addr s \<mapsto> \<lparr>cls_of = c, attrs = a0, base = None\<rparr>),
                next_addr := Suc (next_addr s)\<rparr>))"

text \<open>
  \<^verbatim>\<open>LSTMKerasModel(check_optional_config=c, future_seq_len=f)\<close> and
  \<^verbatim>\<open>MTNetKerasModel(check_optional_config=c, future_seq_len=f)\<close>
\<close>

definition new_LSTMKerasModel :: "'m ext \<Rightarrow> 'm val \<Rightarrow> 'm val \<Rightarrow> (nat, 'm) comp" where
  "new_LSTMKerasModel E c f =
     new_ext LSTMKerasModel (LSTMKerasModel_init E) Call_LSTMKerasModel_init
       [(''check_optional_config'', c), (''future_seq_len'', f)]"

definition new_MTNetKerasModel :: "'m ext \<Rightarrow> 'm val \<Rightarrow> 'm val \<Rightarrow> (nat, 'm) comp" where
  "new_MTNetKerasModel E c f =
     new_ext MTNetKerasModel (MTNetKerasModel_init E) Call_MTNetKerasModel_init
       [(''check_optional_config'', c), (''future_seq_len'', f)]"

text \<open>\<^verbatim>\<open>TFParkKerasModel.__init__(self, model)\<close>\<close>

definition super_init :: "'m ext \<Rightarrow> nat \<Rightarrow> 'm val \<Rightarrow> (unit, 'm) comp" where
  "super_init E self model s =
     (case heap s self of
        None \<Rightarrow> (Inl AttributeError, s)
      | Some ob \<Rightarrow>
          (let s = s\<lparr>trace := trace s @ [Call_TFParkKerasModel_init model]\<rparr>
           in case TFParkKerasModel_init E model of
                Inl e \<Rightarrow> (Inl e, s)
              | Inr b \<Rightarrow> (Inr (), s\<lparr>heap := (heap s)(self \<mapsto> ob\<lparr>base := Some b\<rparr>)\<rparr>)))"

subsection \<open>The classes of the module\<close>

text \<open>\<^verbatim>\<open>LSTMForecaster._build\<close>\<close>

definition LSTMForecaster_build :: "'m ext \<Rightarrow> nat \<Rightarrow> ('m val, 'm) comp" where
  "LSTMForecaster_build E self =
     bindS (getattr self ''check_optional_config'') (\<lambda>c.
     bindS (getattr self ''horizon'') (\<lambda>h.
     bindS (new_LSTMKerasModel E c h) (\<lambda>internal.
     bindS (getattr self ''feature_dim'') (\<lambda>fd.
     bindS (setattr internal ''feature_num'' fd) (\<lambda>_.
     bindS (getattr self ''uncertainty'') (\<lambda>u.
     bindS (getattr self ''model_config'') (\<lambda>cfg.
     bindS (liftE (call_kwargs [(''mc'', u)] cfg)) (\<lambda>kw.
     call_ext (LSTMKerasModel_build E) Call_LSTMKerasModel_build internal kw))))))))"

text \<open>\<^verbatim>\<open>MTNetForecaster._build\<close>\<close>

definition MTNetForecaster_build :: "'m ext \<Rightarrow> nat \<Rightarrow> ('m val, 'm) comp" where
  "MTNetForecaster_build E self =
     bindS (getattr self ''check_optional_config'') (\<lambda>c.
     bindS (getattr self ''model_config'') (\<lambda>cfg0.
     bindS (liftE (dict_get cfg0 ''horizon'')) (\<lambda>f.
     bindS (new_MTNetKerasModel E c f) (\<lambda>a.
     bindS (setattr self ''internal'' (PRef a)) (\<lambda>_.
     bindS (getattr self ''internal'') (\<lambda>i1.
     bindS (method_receiver MTNetKerasModel i1) (\<lambda>r1.
     bindS (getattr self ''mc'') (\<lambda>mc1.
     bindS (getattr self ''model_config'') (\<lambda>cfg1.
     bindS (liftE (dict_get cfg1 ''metrics'')) (\<lambda>metrics1.
     bindS (getattr self ''model_config'') (\<lambda>cfg2.
     bindS (call_ext (MTNetKerasModel_get_attributes E) Call_MTNetKerasModel_get_attributes r1
              [(''mc'', mc1), (''metrics'', metrics1), (''epochs'', PInt 1), (''config'', cfg2)])
       (\<lambda>_.
     bindS (getattr self ''internal'') (\<lambda>i2.
     bindS (method_receiver MTNetKerasModel i2) (\<lambda>r2.
     bindS (getattr self ''mc'') (\<lambda>mc2.
     bindS (getattr self ''model_config'') (\<lambda>cfg3.
     bindS (liftE (dict_get cfg3 ''metrics'')) (\<lambda>metrics2.
     call_ext (MTNetKerasModel_build_train E) Call_MTNetKerasModel_build_train r2
       [(''mc'', mc2), (''metrics'', metrics2)])))))))))))))))))"

text \<open>\<^verbatim>\<open>Forecaster._build\<close>: the abstract method, whose body is \<^verbatim>\<open>pass\<close>.\<close>

definition Forecaster_build :: "nat \<Rightarrow> ('m val, 'm) comp" where
  "Forecaster_build self = returnS PNone"

text \<open>\<^verbatim>\<open>self._build()\<close>: the method of the class of \<open>self\<close>.\<close>

definition call_build :: "'m ext \<Rightarrow> nat \<Rightarrow> ('m val, 'm) comp" where
  "call_build E self s =
     (case heap s self of
        None \<Rightarrow> (Inl AttributeError, s)
      | Some ob \<Rightarrow>
          (case cls_of ob of
             Forecaster \<Rightarrow> Forecaster_build self s
           | LSTMForecaster \<Rightarrow> LSTMForecaster_build E self s
           | MTNetForecaster \<Rightarrow> MTNetForecaster_build E self s
           | LSTMKerasModel \<Rightarrow> (Inl AttributeError, s)
           | MTNetKerasModel \<Rightarrow> (Inl AttributeError, s)))"

text \<open>\<^verbatim>\<open>Forecaster.__init__\<close>\<close>

definition Forecaster_init :: "'m ext \<Rightarrow> nat \<Rightarrow> (unit, 'm) comp" where
  "Forecaster_init E self =
     bindS (call_build E self) (\<lambda>m.
     bindS (setattr self ''model_'' m) (\<lambda>_.
     bindS (getattr self ''model_'') (\<lambda>m'.
     super_init E self m')))"

text \<open>\<^verbatim>\<open>LSTMForecaster.__init__\<close>\<close>

definition LSTMForecaster_init ::
  "'m ext \<Rightarrow> nat \<Rightarrow> 'm val \<Rightarrow> 'm val \<Rightarrow> 'm val \<Rightarrow> 'm val \<Rightarrow> 'm val \<Rightarrow> 'm val \<Rightarrow> 'm val \<Rightarrow>
   'm val \<Rightarrow> 'm val \<Rightarrow> (unit, 'm) comp" where
  "LSTMForecaster_init E self horizon feature_dim lstm_1_units dropout_1 lstm_2_units
       dropout_2 metric lr uncertainty =
     bindS (setattr self ''horizon'' horizon) (\<lambda>_.
     bindS (setattr self ''check_optional_config'' (PBool False)) (\<lambda>_.
     bindS (setattr self ''uncertainty'' uncertainty) (\<lambda>_.
     bindS (setattr self ''feature_dim'' feature_dim) (\<lambda>_.
     bindS (setattr self ''model_config''
              (PDict [(''lr'', lr),
                      (''lstm_1_units'', lstm_1_units),
                      (''dropout_1'', dropout_1),
                      (''lstm_2_units'', lstm_2_units),
                      (''dropout_2'', dropout_2),
                      (''metric'', metric)])) (\<lambda>_.
     Forecaster_init E self)))))"

text \<open>\<^verbatim>\<open>MTNetForecaster.__init__\<close>\<close>

definition MTNetForecaster_init ::
  "'m ext \<Rightarrow> nat \<Rightarrow> 'm val \<Rightarrow> 'm val \<Rightarrow> 'm val \<Rightarrow> 'm val \<Rightarrow> (unit, 'm) comp" where
  "MTNetForecaster_init E self horizon feature_dim metric uncertainty =
     bindS (setattr self ''check_optional_config'' (PBool False)) (\<lambda>_.
     bindS (setattr self ''mc'' uncertainty) (\<lambda>_.
     bindS (setattr self ''model_config''
              (PDict [(''feature_num'', feature_dim),
                      (''output_dim'', horizon),
                      (''metrics'', PList [metric])])) (\<lambda>_.
     bindS (setattr self ''internal'' PNone) (\<lambda>_.
     Forecaster_init E self))))"

text \<open>\<^verbatim>\<open>MTNetForecaster.preprocess_input\<close>\<close>

definition MTNetForecaster_preprocess_input :: "'m ext \<Rightarrow> nat \<Rightarrow> 'm val \<Rightarrow> ('m val, 'm) comp" where
  "MTNetForecaster_preprocess_input E self x =
     bindS (getattr self ''internal'') (\<lambda>i.
     bindS (method_receiver MTNetKerasModel i) (\<lambda>r.
     call_ext (MTNetKerasModel_gen_hist_inputs E) Call_MTNetKerasModel_gen_hist_inputs r x))"

subsection \<open>Abstract classes and instantiation\<close>

text \<open>
  The methods each class statement of the module defines, with whether the definition is
  decorated \<^verbatim>\<open>@abstractmethod\<close>. \<^verbatim>\<open>ABCMeta\<close> collects, when a class is created,
  the names that are abstract in its own namespace and the abstract names of its bases
  that it does not override by a concrete definition.
\<close>

definition abc_abstracts :: "(string \<times> bool) list \<Rightarrow> string list list \<Rightarrow> string list" where
  "abc_abstracts ns base_abstracts =
     map fst (filter snd ns) @
     filter (\<lambda>n. case map_of ns n of None \<Rightarrow> True | Some a \<Rightarrow> a) (concat base_abstracts)"

definition Forecaster_namespace :: "(string \<times> bool) list" where
  "Forecaster_namespace = [(''__init__'', False), (''_build'', True)]"

definition LSTMForecaster_namespace :: "(string \<times> bool) list" where
  "LSTMForecaster_namespace = [(''__init__'', False), (''_build'', False)]"

definition MTNetForecaster_namespace :: "(string \<times> bool) list" where
  "MTNetForecaster_namespace =
     [(''__init__'', False), (''_build'', False), (''preprocess_input'', False)]"

text \<open>
  \<^verbatim>\<open>cls.__abstractmethods__\<close>. \<^verbatim>\<open>Forecaster\<close> derives from
  \<^verbatim>\<open>TFParkKerasModel\<close>, which is not an abstract class; the two leaf classes derive from
  \<^verbatim>\<open>Forecaster\<close>.
\<close>

definition Forecaster_abstractmethods :: "string list" where
  "Forecaster_abstractmethods = abc_abstracts Forecaster_namespace [[]]"

definition LSTMForecaster_abstractmethods :: "string list" where
  "LSTMForecaster_abstractmethods =
     abc_abstracts LSTMForecaster_namespace [Forecaster_abstractmethods]"

definition MTNetForecaster_abstractmethods :: "string list" where
  "MTNetForecaster_abstractmethods =
     abc_abstracts MTNetForecaster_namespace [Forecaster_abstractmethods]"

fun abstractmethods :: "cls \<Rightarrow> string list" where
  "abstractmethods Forecaster = Forecaster_abstractmethods"
| "abstractmethods LSTMForecaster = LSTMForecaster_abstractmethods"
| "abstractmethods MTNetForecaster = MTNetForecaster_abstractmethods"
| "abstractmethods LSTMKerasModel = []"
| "abstractmethods MTNetKerasModel = []"

text \<open>
  \<^verbatim>\<open>object.__new__(cls)\<close>: \<^verbatim>\<open>TypeError\<close> for a class with abstract methods left,
  a fresh instance without attributes otherwise.
\<close>

definition object_new :: "cls \<Rightarrow> (nat, 'm) comp" where
  "object_new c s = (if abstractmethods c \<noteq> [] then (Inl TypeError, s) else alloc c s)"

text \<open>The class calls \<^verbatim>\<open>Forecaster()\<close>, \<^verbatim>\<open>LSTMForecaster(...)\<close>, \<^verbatim>\<open>MTNetForecaster(...)\<close>.\<close>

definition new_Forecaster :: "'m ext \<Rightarrow> (nat, 'm) comp" where
  "new_Forecaster E =
     bindS (object_new Forecaster) (\<lambda>self.
     bindS (Forecaster_init E self) (\<lambda>_.
     returnS self))"

definition new_LSTMForecaster ::
  "'m ext \<Rightarrow> 'm val \<Rightarrow> 'm val \<Rightarrow> 'm val \<Rightarrow> 'm val \<Rightarrow> 'm val \<Rightarrow> 'm val \<Rightarrow> 'm val \<Rightarrow>
   'm val \<Rightarrow> 'm val \<Rightarrow> (nat, 'm) comp" where
  "new_LSTMForecaster E horizon feature_dim lstm_1_units dropout_1 lstm_2_units
       dropout_2 metric lr uncertainty =
     bindS (object_new LSTMForecaster) (\<lambda>self.
     bindS (LSTMForecaster_init E self horizon feature_dim lstm_1_units dropout_1
              lstm_2_units dropout_2 metric lr uncertainty) (\<lambda>_.
     returnS self))"

definition new_MTNetForecaster ::
  "'m ext \<Rightarrow> 'm val \<Rightarrow> 'm val \<Rightarrow> 'm val \<Rightarrow> 'm val \<Rightarrow> (nat, 'm) comp" where
  "new_MTNetForecaster E horizon feature_dim metric uncertainty =
     bindS (object_new MTNetForecaster) (\<lambda>self.
     bindS (MTNetForecaster_init E self horizon feature_dim metric uncertainty) (\<lambda>_.
     returnS self))"

subsection \<open>Observations and sample inputs\<close>

text \<open>The external calls made between an earlier state and a later one.\<close>

definition calls_since :: "'m state \<Rightarrow> 'm state \<Rightarrow> 'm call list" where
  "calls_since s s' = drop (length (trace s)) (trace s')"

text \<open>The attribute assignments executed between an earlier state and a later one.\<close>

definition writes_since :: "'m state \<Rightarrow> 'm state \<Rightarrow> (nat \<times> string) list" where
  "writes_since s s' = drop (length (writes s)) (writes s')"

text \<open>
  Whether an external call, as it is logged, returns (rather than raises) with the
  library \<open>E\<close>.
\<close>

definition returns_ext :: "'m ext \<Rightarrow> 'm call \<Rightarrow> bool" where
  "returns_ext E c =
     (case c of
        Call_LSTMKerasModel_init kw \<Rightarrow> \<not> isl (LSTMKerasModel_init E kw)
      | Call_LSTMKerasModel_build recv kw \<Rightarrow> \<not> isl (LSTMKerasModel_build E recv kw)
      | Call_MTNetKerasModel_init kw \<Rightarrow> \<not> isl (MTNetKerasModel_init E kw)
      | Call_MTNetKerasModel_get_attributes recv kw \<Rightarrow>
          \<not> isl (MTNetKerasModel_get_attributes E recv kw)
      | Call_MTNetKerasModel_build_train recv kw \<Rightarrow>
          \<not> isl (MTNetKerasModel_build_train E recv kw)
      | Call_MTNetKerasModel_gen_hist_inputs recv x \<Rightarrow>
          \<not> isl (MTNetKerasModel_gen_hist_inputs E recv x)
      | Call_TFParkKerasModel_init model \<Rightarrow> \<not> isl (TFParkKerasModel_init E model))"

text \<open>
  A sample external library, to run the module on concrete inputs: an internal model
  starts with its keyword arguments and some attributes of its own, every routine
  succeeds, \<^verbatim>\<open>_get_attributes\<close> stores its keyword arguments on the receiver and the
  builders return an opaque model.
\<close>

definition sample_ext :: "nat ext" where
  "sample_ext =
     \<lparr>LSTMKerasModel_init = (\<lambda>kw. Inr (kw @ [(''feature_num'', PNone), (''model'', PNone)])),
      MTNetKerasModel_init = (\<lambda>kw. Inr (kw @ [(''model'', PNone)])),
      LSTMKerasModel_build = (\<lambda>recv kw. Inr (recv, PExt 1)),
      MTNetKerasModel_get_attributes = (\<lambda>recv kw. Inr (recv @ kw, PNone)),
      MTNetKerasModel_build_train = (\<lambda>recv kw. Inr (recv, PExt 2)),
      MTNetKerasModel_gen_hist_inputs = (\<lambda>recv x. Inr (recv, PList [x, x])),
      TFParkKerasModel_init = (\<lambda>m. Inr m)\<rparr>"

text \<open>
  The same library, but with internal model classes whose initializers reject their
  arguments.
\<close>

definition strict_ext :: "nat ext" where
  "strict_ext =
     sample_ext
       \<lparr>LSTMKerasModel_init := (\<lambda>kw. Inl (Raised ''ValueError'')),
        MTNetKerasModel_init := (\<lambda>kw. Inl (Raised ''ValueError''))\<rparr>"

definition empty_state :: "nat state" where
  "empty_state = \<lparr>heap = Map.empty, next_addr = 0, trace = [], writes = []\<rparr>"

section \<open>Properties\<close>

subsection \<open>What a construction does\<close>

text \<open>
  The two class calls, computed once and for all. The steps of the module itself never
  raise; the outcome and the final state depend on the external routines only: on the
  class call of the internal model, on the building methods called on it, and on the base
  initializer. The case rules below name the outcomes after the first external call that
  raises.
\<close>

lemmas prims = returnS_def liftE_def bindS_def alloc_def setattr_def getattr_def dict_get_def
  call_kwargs_def method_receiver_def call_ext_def new_ext_def new_LSTMKerasModel_def
  new_MTNetKerasModel_def super_init_def

lemma abstractmethods_Forecaster: "abstractmethods Forecaster = [''_build'']"
  by (simp add: Forecaster_abstractmethods_def abc_abstracts_def Forecaster_namespace_def)

lemma abstractmethods_LSTMForecaster: "abstractmethods LSTMForecaster = []"
  by (simp add: LSTMForecaster_abstractmethods_def Forecaster_abstractmethods_def
      abc_abstracts_def Forecaster_namespace_def LSTMForecaster_namespace_def)

lemma abstractmethods_MTNetForecaster: "abstractmethods MTNetForecaster = []"
  by (simp add: MTNetForecaster_abstractmethods_def Forecaster_abstractmethods_def
      abc_abstracts_def Forecaster_namespace_def MTNetForecaster_namespace_def)

lemma new_LSTMForecaster_eq:
  "new_LSTMForecaster E h fd ua da ub db m lr u s =
     (case LSTMKerasModel_init E
               [(''check_optional_config'', PBool False), (''future_seq_len'', h)] of
        Inl e \<Rightarrow>
          (Inl e,
           \<lparr>heap = (heap s)
             (next_addr s \<mapsto>
                \<lparr>cls_of = LSTMForecaster,
                 attrs = [(''horizon'', h), (''check_optional_config'', PBool False),
                    (''uncertainty'', u), (''feature_dim'', fd),
                    (''model_config'',
                       PDict [(''lr'', lr), (''lstm_1_units'', ua), (''dropout_1'', da),
                      (''lstm_2_units'', ub), (''dropout_2'', db), (''metric'', m)])],
                 base = None\<rparr>),
           next_addr = Suc (next_addr s),
           trace = trace s @
             [Call_LSTMKerasModel_init
                [(''check_optional_config'', PBool False), (''future_seq_len'', h)]],
           writes = writes s @
             [(next_addr s, ''horizon''),
              (next_addr s, ''check_optional_config''),
              (next_addr s, ''uncertainty''),
              (next_addr s, ''feature_dim''),
              (next_addr s, ''model_config'')]\<rparr>)
      | Inr a0 \<Rightarrow>
          (case LSTMKerasModel_build E
               (AList.update ''feature_num'' fd a0)
               [(''mc'', u), (''lr'', lr), (''lstm_1_units'', ua), (''dropout_1'', da),
                        (''lstm_2_units'', ub), (''dropout_2'', db), (''metric'', m)] of
             Inl e \<Rightarrow>
               (Inl e,
                \<lparr>heap = (heap s)
             (next_addr s \<mapsto>
                \<lparr>cls_of = LSTMForecaster,
                 attrs = [(''horizon'', h), (''check_optional_config'', PBool False),
                    (''uncertainty'', u), (''feature_dim'', fd),
                    (''model_config'',
                       PDict [(''lr'', lr), (''lstm_1_units'', ua), (''dropout_1'', da),
                      (''lstm_2_units'', ub), (''dropout_2'', db), (''metric'', m)])],
                 base = None\<rparr>,
              Suc (next_addr s) \<mapsto>
                \<lparr>cls_of = LSTMKerasModel,
                 attrs = (AList.update ''feature_num'' fd a0),
                 base = None\<rparr>),
           next_addr = Suc (Suc (next_addr s)),
           trace = trace s @
             [Call_LSTMKerasModel_init
                [(''check_optional_config'', PBool False), (''future_seq_len'', h)],
              Call_LSTMKerasModel_build
                (AList.update ''feature_num'' fd a0)
                [(''mc'', u), (''lr'', lr), (''lstm_1_units'', ua), (''dropout_1'', da),
                  (''lstm_2_units'', ub), (''dropout_2'', db), (''metric'', m)]],
           writes = writes s @
             [(next_addr s, ''horizon''),
              (next_addr s, ''check_optional_config''),
              (next_addr s, ''uncertainty''),
              (next_addr s, ''feature_dim''),
              (next_addr s, ''model_config''),
              (Suc (next_addr s), ''feature_num'')]\<rparr>)
           | Inr (recv', r) \<Rightarrow>
               (case TFParkKerasModel_init E r of
                  Inl e \<Rightarrow>
                    (Inl e,
                     \<lparr>heap = (heap s)
             (next_addr s \<mapsto>
                \<lparr>cls_of = LSTMForecaster,
                 attrs = [(''horizon'', h), (''check_optional_config'', PBool False),
                    (''uncertainty'', u), (''feature_dim'', fd),
                    (''model_config'',
                       PDict [(''lr'', lr), (''lstm_1_units'', ua), (''dropout_1'', da),
                      (''lstm_2_units'', ub), (''dropout_2'', db), (''metric'', m)]),
                    (''model_'', r)],
                 base = None\<rparr>,
              Suc (next_addr s) \<mapsto>
                \<lparr>cls_of = LSTMKerasModel,
                 attrs = recv',
                 base = None\<rparr>),
           next_addr = Suc (Suc (next_addr s)),
           trace = trace s @
             [Call_LSTMKerasModel_init
                [(''check_optional_config'', PBool False), (''future_seq_len'', h)],
              Call_LSTMKerasModel_build
                (AList.update ''feature_num'' fd a0)
                [(''mc'', u), (''lr'', lr), (''lstm_1_units'', ua), (''dropout_1'', da),
                  (''lstm_2_units'', ub), (''dropout_2'', db), (''metric'', m)],
              Call_TFParkKerasModel_init r],
           writes = writes s @
             [(next_addr s, ''horizon''),
              (next_addr s, ''check_optional_config''),
              (next_addr s, ''uncertainty''),
              (next_addr s, ''feature_dim''),
              (next_addr s, ''model_config''),
              (Suc (next_addr s), ''feature_num''),
              (next_addr s, ''model_'')]\<rparr>)
                | Inr b \<Rightarrow>
                    (Inr (next_addr s),
                     \<lparr>heap = (heap s)
             (next_addr s \<mapsto>
                \<lparr>cls_of = LSTMForecaster,
                 attrs = [(''horizon'', h), (''check_optional_config'', PBool False),
                    (''uncertainty'', u), (''feature_dim'', fd),
                    (''model_config'',
                       PDict [(''lr'', lr), (''lstm_1_units'', ua), (''dropout_1'', da),
                      (''lstm_2_units'', ub), (''dropout_2'', db), (''metric'', m)]),
                    (''model_'', r)],
                 base = Some b\<rparr>,
              Suc (next_addr s) \<mapsto>
                \<lparr>cls_of = LSTMKerasModel,
                 attrs = recv',
                 base = None\<rparr>),
           next_addr = Suc (Suc (next_addr s)),
           trace = trace s @
             [Call_LSTMKerasModel_init
                [(''check_optional_config'', PBool False), (''future_seq_len'', h)],
              Call_LSTMKerasModel_build
                (AList.update ''feature_num'' fd a0)
                [(''mc'', u), (''lr'', lr), (''lstm_1_units'', ua), (''dropout_1'', da),
                  (''lstm_2_units'', ub), (''dropout_2'', db), (''metric'', m)],
              Call_TFParkKerasModel_init r],
           writes = writes s @
             [(next_addr s, ''horizon''),
              (next_addr s, ''check_optional_config''),
              (next_addr s, ''uncertainty''),
              (next_addr s, ''feature_dim''),
              (next_addr s, ''model_config''),
              (Suc (next_addr s), ''feature_num''),
              (next_addr s, ''model_'')]\<rparr>))))"
  unfolding new_LSTMForecaster_def LSTMForecaster_init_def Forecaster_init_def call_build_def
    LSTMForecaster_build_def object_new_def abstractmethods_LSTMForecaster
  by (auto simp: prims Let_def fun_eq_iff split: sum.splits prod.splits)

lemma new_MTNetForecaster_eq:
  "new_MTNetForecaster E h fd m u s =
     (case MTNetKerasModel_init E
               [(''check_optional_config'', PBool False), (''future_seq_len'', PNone)] of
        Inl e \<Rightarrow>
          (Inl e,
           \<lparr>heap = (heap s)
             (next_addr s \<mapsto>
                \<lparr>cls_of = MTNetForecaster,
                 attrs = [(''check_optional_config'', PBool False), (''mc'', u),
                    (''model_config'',
                       PDict [(''feature_num'', fd), (''output_dim'', h), (''metrics'', PList [m])]),
                    (''internal'', PNone)],
                 base = None\<rparr>),
           next_addr = Suc (next_addr s),
           trace = trace s @
             [Call_MTNetKerasModel_init
                [(''check_optional_config'', PBool False), (''future_seq_len'', PNone)]],
           writes = writes s @
             [(next_addr s, ''check_optional_config''),
              (next_addr s, ''mc''),
              (next_addr s, ''model_config''),
              (next_addr s, ''internal'')]\<rparr>)
      | Inr a0 \<Rightarrow>
          (case MTNetKerasModel_get_attributes E a0
               [(''mc'', u), (''metrics'', PList [m]), (''epochs'', PInt 1),
                       (''config'', PDict [(''feature_num'', fd), (''output_dim'', h), (''metrics'', PList [m])])] of
             Inl e \<Rightarrow>
               (Inl e,
                \<lparr>heap = (heap s)
             (next_addr s \<mapsto>
                \<lparr>cls_of = MTNetForecaster,
                 attrs = [(''check_optional_config'', PBool False), (''mc'', u),
                    (''model_config'',
                       PDict [(''feature_num'', fd), (''output_dim'', h), (''metrics'', PList [m])]),
                    (''internal'', PRef (Suc (next_addr s)))],
                 base = None\<rparr>,
              Suc (next_addr s) \<mapsto>
                \<lparr>cls_of = MTNetKerasModel,
                 attrs = a0,
                 base = None\<rparr>),
           next_addr = Suc (Suc (next_addr s)),
           trace = trace s @
             [Call_MTNetKerasModel_init
                [(''check_optional_config'', PBool False), (''future_seq_len'', PNone)],
              Call_MTNetKerasModel_get_attributes a0
                [(''mc'', u), (''metrics'', PList [m]), (''epochs'', PInt 1),
                 (''config'', PDict [(''feature_num'', fd), (''output_dim'', h), (''metrics'', PList [m])])]],
           writes = writes s @
             [(next_addr s, ''check_optional_config''),
              (next_addr s, ''mc''),
              (next_addr s, ''model_config''),
              (next_addr s, ''internal''),
              (next_addr s, ''internal'')]\<rparr>)
           | Inr (recva, ignored) \<Rightarrow>
               (case MTNetKerasModel_build_train E recva
               [(''mc'', u), (''metrics'', PList [m])] of
                  Inl e \<Rightarrow>
                    (Inl e,
                     \<lparr>heap = (heap s)
             (next_addr s \<mapsto>
                \<lparr>cls_of = MTNetForecaster,
                 attrs = [(''check_optional_config'', PBool False), (''mc'', u),
                    (''model_config'',
                       PDict [(''feature_num'', fd), (''output_dim'', h), (''metrics'', PList [m])]),
                    (''internal'', PRef (Suc (next_addr s)))],
                 base = None\<rparr>,
              Suc (next_addr s) \<mapsto>
                \<lparr>cls_of = MTNetKerasModel,
                 attrs = recva,
                 base = None\<rparr>),
           next_addr = Suc (Suc (next_addr s)),
           trace = trace s @
             [Call_MTNetKerasModel_init
                [(''check_optional_config'', PBool False), (''future_seq_len'', PNone)],
              Call_MTNetKerasModel_get_attributes a0
                [(''mc'', u), (''metrics'', PList [m]), (''epochs'', PInt 1),
                 (''config'', PDict [(''feature_num'', fd), (''output_dim'', h), (''metrics'', PList [m])])],
              Call_MTNetKerasModel_build_train recva
                [(''mc'', u), (''metrics'', PList [m])]],
           writes = writes s @
             [(next_addr s, ''check_optional_config''),
              (next_addr s, ''mc''),
              (next_addr s, ''model_config''),
              (next_addr s, ''internal''),
              (next_addr s, ''internal'')]\<rparr>)
                | Inr (recvb, r) \<Rightarrow>
                    (case TFParkKerasModel_init E r of
                       Inl e \<Rightarrow>
                         (Inl e,
                          \<lparr>heap = (heap s)
             (next_addr s \<mapsto>
                \<lparr>cls_of = MTNetForecaster,
                 attrs = [(''check_optional_config'', PBool False), (''mc'', u),
                    (''model_config'',
                       PDict [(''feature_num'', fd), (''output_dim'', h), (''metrics'', PList [m])]),
                    (''internal'', PRef (Suc (next_addr s))),
                    (''model_'', r)],
                 base = None\<rparr>,
              Suc (next_addr s) \<mapsto>
                \<lparr>cls_of = MTNetKerasModel,
                 attrs = recvb,
                 base = None\<rparr>),
           next_addr = Suc (Suc (next_addr s)),
           trace = trace s @
             [Call_MTNetKerasModel_init
                [(''check_optional_config'', PBool False), (''future_seq_len'', PNone)],
              Call_MTNetKerasModel_get_attributes a0
                [(''mc'', u), (''metrics'', PList [m]), (''epochs'', PInt 1),
                 (''config'', PDict [(''feature_num'', fd), (''output_dim'', h), (''metrics'', PList [m])])],
              Call_MTNetKerasModel_build_train recva
                [(''mc'', u), (''metrics'', PList [m])],
              Call_TFParkKerasModel_init r],
           writes = writes s @
             [(next_addr s, ''check_optional_config''),
              (next_addr s, ''mc''),
              (next_addr s, ''model_config''),
              (next_addr s, ''internal''),
              (next_addr s, ''internal''),
              (next_addr s, ''model_'')]\<rparr>)
                     | Inr b \<Rightarrow>
                         (Inr (next_addr s),
                          \<lparr>heap = (heap s)
             (next_addr s \<mapsto>
                \<lparr>cls_of = MTNetForecaster,
                 attrs = [(''check_optional_config'', PBool False), (''mc'', u),
                    (''model_config'',
                       PDict [(''feature_num'', fd), (''output_dim'', h), (''metrics'', PList [m])]),
                    (''internal'', PRef (Suc (next_addr s))),
                    (''model_'', r)],
                 base = Some b\<rparr>,
              Suc (next_addr s) \<mapsto>
                \<lparr>cls_of = MTNetKerasModel,
                 attrs = recvb,
                 base = None\<rparr>),
           next_addr = Suc (Suc (next_addr s)),
           trace = trace s @
             [Call_MTNetKerasModel_init
                [(''check_optional_config'', PBool False), (''future_seq_len'', PNone)],
              Call_MTNetKerasModel_get_attributes a0
                [(''mc'', u), (''metrics'', PList [m]), (''epochs'', PInt 1),
                 (''config'', PDict [(''feature_num'', fd), (''output_dim'', h), (''metrics'', PList [m])])],
              Call_MTNetKerasModel_build_train recva
                [(''mc'', u), (''metrics'', PList [m])],
              Call_TFParkKerasModel_init r],
           writes = writes s @
             [(next_addr s, ''check_optional_config''),
              (next_addr s, ''mc''),
              (next_addr s, ''model_config''),
              (next_addr s, ''internal''),
              (next_addr s, ''internal''),
              (next_addr s, ''model_'')]\<rparr>)))))"
  unfolding new_MTNetForecaster_def MTNetForecaster_init_def Forecaster_init_def call_build_def
    MTNetForecaster_build_def object_new_def abstractmethods_MTNetForecaster
  by (auto simp: prims Let_def fun_eq_iff split: sum.splits prod.splits)

lemma new_LSTMForecaster_cases:
  fixes E :: "'m ext"
  obtains
    (ctor_raises) e where
      "LSTMKerasModel_init E
         [(''check_optional_config'', PBool False), (''future_seq_len'', h)] = Inl e"
      "new_LSTMForecaster E h fd ua da ub db m lr u s =
         (Inl e,
          \<lparr>heap = (heap s)
             (next_addr s \<mapsto>
                \<lparr>cls_of = LSTMForecaster,
                 attrs = [(''horizon'', h), (''check_optional_config'', PBool False),
                    (''uncertainty'', u), (''feature_dim'', fd),
                    (''model_config'',
                       PDict [(''lr'', lr), (''lstm_1_units'', ua), (''dropout_1'', da),
                      (''lstm_2_units'', ub), (''dropout_2'', db), (''metric'', m)])],
                 base = None\<rparr>),
           next_addr = Suc (next_addr s),
           trace = trace s @
             [Call_LSTMKerasModel_init
                [(''check_optional_config'', PBool False), (''future_seq_len'', h)]],
           writes = writes s @
             [(next_addr s, ''horizon''),
              (next_addr s, ''check_optional_config''),
              (next_addr s, ''uncertainty''),
              (next_addr s, ''feature_dim''),
              (next_addr s, ''model_config'')]\<rparr>)"
  | (build_raises) a0 e where
      "LSTMKerasModel_init E
         [(''check_optional_config'', PBool False), (''future_seq_len'', h)] = Inr a0"
      "LSTMKerasModel_build E
         (AList.update ''feature_num'' fd a0)
         [(''mc'', u), (''lr'', lr), (''lstm_1_units'', ua), (''dropout_1'', da),
                  (''lstm_2_units'', ub), (''dropout_2'', db), (''metric'', m)] = Inl e"
      "new_LSTMForecaster E h fd ua da ub db m lr u s =
         (Inl e,
          \<lparr>heap = (heap s)
             (next_addr s \<mapsto>
                \<lparr>cls_of = LSTMForecaster,
                 attrs = [(''horizon'', h), (''check_optional_config'', PBool False),
                    (''uncertainty'', u), (''feature_dim'', fd),
                    (''model_config'',
                       PDict [(''lr'', lr), (''lstm_1_units'', ua), (''dropout_1'', da),
                      (''lstm_2_units'', ub), (''dropout_2'', db), (''metric'', m)])],
                 base = None\<rparr>,
              Suc (next_addr s) \<mapsto>
                \<lparr>cls_of = LSTMKerasModel,
                 attrs = (AList.update ''feature_num'' fd a0),
                 base = None\<rparr>),
           next_addr = Suc (Suc (next_addr s)),
           trace = trace s @
             [Call_LSTMKerasModel_init
                [(''check_optional_config'', PBool False), (''future_seq_len'', h)],
              Call_LSTMKerasModel_build
                (AList.update ''feature_num'' fd a0)
                [(''mc'', u), (''lr'', lr), (''lstm_1_units'', ua), (''dropout_1'', da),
                  (''lstm_2_units'', ub), (''dropout_2'', db), (''metric'', m)]],
           writes = writes s @
             [(next_addr s, ''horizon''),
              (next_addr s, ''check_optional_config''),
              (next_addr s, ''uncertainty''),
              (next_addr s, ''feature_dim''),
              (next_addr s, ''model_config''),
              (Suc (next_addr s), ''feature_num'')]\<rparr>)"
  | (base_raises) a0 recv' r e where
      "LSTMKerasModel_init E
         [(''check_optional_config'', PBool False), (''future_seq_len'', h)] = Inr a0"
      "LSTMKerasModel_build E
         (AList.update ''feature_num'' fd a0)
         [(''mc'', u), (''lr'', lr), (''lstm_1_units'', ua), (''dropout_1'', da),
                  (''lstm_2_units'', ub), (''dropout_2'', db), (''metric'', m)] = Inr (recv', r)"
      "TFParkKerasModel_init E r = Inl e"
      "new_LSTMForecaster E h fd ua da ub db m lr u s =
         (Inl e,
          \<lparr>heap = (heap s)
             (next_addr s \<mapsto>
                \<lparr>cls_of = LSTMForecaster,
                 attrs = [(''horizon'', h), (''check_optional_config'', PBool False),
                    (''uncertainty'', u), (''feature_dim'', fd),
                    (''model_config'',
                       PDict [(''lr'', lr), (''lstm_1_units'', ua), (''dropout_1'', da),
                      (''lstm_2_units'', ub), (''dropout_2'', db), (''metric'', m)]),
                    (''model_'', r)],
                 base = None\<rparr>,
              Suc (next_addr s) \<mapsto>
                \<lparr>cls_of = LSTMKerasModel,
                 attrs = recv',
                 base = None\<rparr>),
           next_addr = Suc (Suc (next_addr s)),
           trace = trace s @
             [Call_LSTMKerasModel_init
                [(''check_optional_config'', PBool False), (''future_seq_len'', h)],
              Call_LSTMKerasModel_build
                (AList.update ''feature_num'' fd a0)
                [(''mc'', u), (''lr'', lr), (''lstm_1_units'', ua), (''dropout_1'', da),
                  (''lstm_2_units'', ub), (''dropout_2'', db), (''metric'', m)],
              Call_TFParkKerasModel_init r],
           writes = writes s @
             [(next_addr s, ''horizon''),
              (next_addr s, ''check_optional_config''),
              (next_addr s, ''uncertainty''),
              (next_addr s, ''feature_dim''),
              (next_addr s, ''model_config''),
              (Suc (next_addr s), ''feature_num''),
              (next_addr s, ''model_'')]\<rparr>)"
  | (returns) a0 recv' r b where
      "LSTMKerasModel_init E
         [(''check_optional_config'', PBool False), (''future_seq_len'', h)] = Inr a0"
      "LSTMKerasModel_build E
         (AList.update ''feature_num'' fd a0)
         [(''mc'', u), (''lr'', lr), (''lstm_1_units'', ua), (''dropout_1'', da),
                  (''lstm_2_units'', ub), (''dropout_2'', db), (''metric'', m)] = Inr (recv', r)"
      "TFParkKerasModel_init E r = Inr b"
      "new_LSTMForecaster E h fd ua da ub db m lr u s =
         (Inr (next_addr s),
          \<lparr>heap = (heap s)
             (next_addr s \<mapsto>
                \<lparr>cls_of = LSTMForecaster,
                 attrs = [(''horizon'', h), (''check_optional_config'', PBool False),
                    (''uncertainty'', u), (''feature_dim'', fd),
                    (''model_config'',
                       PDict [(''lr'', lr), (''lstm_1_units'', ua), (''dropout_1'', da),
                      (''lstm_2_units'', ub), (''dropout_2'', db), (''metric'', m)]),
                    (''model_'', r)],
                 base = Some b\<rparr>,
              Suc (next_addr s) \<mapsto>
                \<lparr>cls_of = LSTMKerasModel,
                 attrs = recv',
                 base = None\<rparr>),
           next_addr = Suc (Suc (next_addr s)),
           trace = trace s @
             [Call_LSTMKerasModel_init
                [(''check_optional_config'', PBool False), (''future_seq_len'', h)],
              Call_LSTMKerasModel_build
                (AList.update ''feature_num'' fd a0)
                [(''mc'', u), (''lr'', lr), (''lstm_1_units'', ua), (''dropout_1'', da),
                  (''lstm_2_units'', ub), (''dropout_2'', db), (''metric'', m)],
              Call_TFParkKerasModel_init r],
           writes = writes s @
             [(next_addr s, ''horizon''),
              (next_addr s, ''check_optional_config''),
              (next_addr s, ''uncertainty''),
              (next_addr s, ''feature_dim''),
              (next_addr s, ''model_config''),
              (Suc (next_addr s), ''feature_num''),
              (next_addr s, ''model_'')]\<rparr>)"
proof (cases "LSTMKerasModel_init E
         [(''check_optional_config'', PBool False), (''future_seq_len'', h)]")
  case (Inl e)
  show ?thesis
    by (rule ctor_raises [OF Inl]) (simp add: new_LSTMForecaster_eq Inl)
next
  case (Inr a0)
  note 0 = Inr
  show ?thesis
  proof (cases "LSTMKerasModel_build E
         (AList.update ''feature_num'' fd a0)
         [(''mc'', u), (''lr'', lr), (''lstm_1_units'', ua), (''dropout_1'', da),
                  (''lstm_2_units'', ub), (''dropout_2'', db), (''metric'', m)]")
    case (Inl e)
    show ?thesis
      by (rule build_raises [OF 0 Inl]) (simp add: new_LSTMForecaster_eq 0 Inl)
  next
    case (Inr p)
    obtain recv' r where p: "p = (recv', r)"
      by (cases p)
    note 1 = Inr [unfolded p]
    show ?thesis
    proof (cases "TFParkKerasModel_init E r")
      case (Inl e)
      show ?thesis
        by (rule base_raises [OF 0 1 Inl]) (simp add: new_LSTMForecaster_eq 0 1 Inl)
    next
      case (Inr b)
      show ?thesis
        by (rule returns [OF 0 1 Inr]) (simp add: new_LSTMForecaster_eq 0 1 Inr)
    qed
  qed
qed

lemma new_MTNetForecaster_cases:
  fixes E :: "'m ext"
  obtains
    (ctor_raises) e where
      "MTNetKerasModel_init E
         [(''check_optional_config'', PBool False), (''future_seq_len'', PNone)] = Inl e"
      "new_MTNetForecaster E h fd m u s =
         (Inl e,
          \<lparr>heap = (heap s)
             (next_addr s \<mapsto>
                \<lparr>cls_of = MTNetForecaster,
                 attrs = [(''check_optional_config'', PBool False), (''mc'', u),
                    (''model_config'',
                       PDict [(''feature_num'', fd), (''output_dim'', h), (''metrics'', PList [m])]),
                    (''internal'', PNone)],
                 base = None\<rparr>),
           next_addr = Suc (next_addr s),
           trace = trace s @
             [Call_MTNetKerasModel_init
                [(''check_optional_config'', PBool False), (''future_seq_len'', PNone)]],
           writes = writes s @
             [(next_addr s, ''check_optional_config''),
              (next_addr s, ''mc''),
              (next_addr s, ''model_config''),
              (next_addr s, ''internal'')]\<rparr>)"
  | (attributes_raises) a0 e where
      "MTNetKerasModel_init E
         [(''check_optional_config'', PBool False), (''future_seq_len'', PNone)] = Inr a0"
      "MTNetKerasModel_get_attributes E a0
         [(''mc'', u), (''metrics'', PList [m]), (''epochs'', PInt 1),
                 (''config'', PDict [(''feature_num'', fd), (''output_dim'', h), (''metrics'', PList [m])])] = Inl e"
      "new_MTNetForecaster E h fd m u s =
         (Inl e,
          \<lparr>heap = (heap s)
             (next_addr s \<mapsto>
                \<lparr>cls_of = MTNetForecaster,
                 attrs = [(''check_optional_config'', PBool False), (''mc'', u),
                    (''model_config'',
                       PDict [(''feature_num'', fd), (''output_dim'', h), (''metrics'', PList [m])]),
                    (''internal'', PRef (Suc (next_addr s)))],
                 base = None\<rparr>,
              Suc (next_addr s) \<mapsto>
                \<lparr>cls_of = MTNetKerasModel,
                 attrs = a0,
                 base = None\<rparr>),
           next_addr = Suc (Suc (next_addr s)),
           trace = trace s @
             [Call_MTNetKerasModel_init
                [(''check_optional_config'', PBool False), (''future_seq_len'', PNone)],
              Call_MTNetKerasModel_get_attributes a0
                [(''mc'', u), (''metrics'', PList [m]), (''epochs'', PInt 1),
                 (''config'', PDict [(''feature_num'', fd), (''output_dim'', h), (''metrics'', PList [m])])]],
           writes = writes s @
             [(next_addr s, ''check_optional_config''),
              (next_addr s, ''mc''),
              (next_addr s, ''model_config''),
              (next_addr s, ''internal''),
              (next_addr s, ''internal'')]\<rparr>)"
  | (train_raises) a0 recva ignored e where
      "MTNetKerasModel_init E
         [(''check_optional_config'', PBool False), (''future_seq_len'', PNone)] = Inr a0"
      "MTNetKerasModel_get_attributes E a0
         [(''mc'', u), (''metrics'', PList [m]), (''epochs'', PInt 1),
                 (''config'', PDict [(''feature_num'', fd), (''output_dim'', h), (''metrics'', PList [m])])] = Inr (recva, ignored)"
      "MTNetKerasModel_build_train E recva
         [(''mc'', u), (''metrics'', PList [m])] = Inl e"
      "new_MTNetForecaster E h fd m u s =
         (Inl e,
          \<lparr>heap = (heap s)
             (next_addr s \<mapsto>
                \<lparr>cls_of = MTNetForecaster,
                 attrs = [(''check_optional_config'', PBool False), (''mc'', u),
                    (''model_config'',
                       PDict [(''feature_num'', fd), (''output_dim'', h), (''metrics'', PList [m])]),
                    (''internal'', PRef (Suc (next_addr s)))],
                 base = None\<rparr>,
              Suc (next_addr s) \<mapsto>
                \<lparr>cls_of = MTNetKerasModel,
                 attrs = recva,
                 base = None\<rparr>),
           next_addr = Suc (Suc (next_addr s)),
           trace = trace s @
             [Call_MTNetKerasModel_init
                [(''check_optional_config'', PBool False), (''future_seq_len'', PNone)],
              Call_MTNetKerasModel_get_attributes a0
                [(''mc'', u), (''metrics'', PList [m]), (''epochs'', PInt 1),
                 (''config'', PDict [(''feature_num'', fd), (''output_dim'', h), (''metrics'', PList [m])])],
              Call_MTNetKerasModel_build_train recva
                [(''mc'', u), (''metrics'', PList [m])]],
           writes = writes s @
             [(next_addr s, ''check_optional_config''),
              (next_addr s, ''mc''),
              (next_addr s, ''model_config''),
              (next_addr s, ''internal''),
              (next_addr s, ''internal'')]\<rparr>)"
  | (base_raises) a0 recva ignored recvb r e where
      "MTNetKerasModel_init E
         [(''check_optional_config'', PBool False), (''future_seq_len'', PNone)] = Inr a0"
      "MTNetKerasModel_get_attributes E a0
         [(''mc'', u), (''metrics'', PList [m]), (''epochs'', PInt 1),
                 (''config'', PDict [(''feature_num'', fd), (''output_dim'', h), (''metrics'', PList [m])])] = Inr (recva, ignored)"
      "MTNetKerasModel_build_train E recva
         [(''mc'', u), (''metrics'', PList [m])] = Inr (recvb, r)"
      "TFParkKerasModel_init E r = Inl e"
      "new_MTNetForecaster E h fd m u s =
         (Inl e,
          \<lparr>heap = (heap s)
             (next_addr s \<mapsto>
                \<lparr>cls_of = MTNetForecaster,
                 attrs = [(''check_optional_config'', PBool False), (''mc'', u),
                    (''model_config'',
                       PDict [(''feature_num'', fd), (''output_dim'', h), (''metrics'', PList [m])]),
                    (''internal'', PRef (Suc (next_addr s))),
                    (''model_'', r)],
                 base = None\<rparr>,
              Suc (next_addr s) \<mapsto>
                \<lparr>cls_of = MTNetKerasModel,
                 attrs = recvb,
                 base = None\<rparr>),
           next_addr = Suc (Suc (next_addr s)),
           trace = trace s @
             [Call_MTNetKerasModel_init
                [(''check_optional_config'', PBool False), (''future_seq_len'', PNone)],
              Call_MTNetKerasModel_get_attributes a0
                [(''mc'', u), (''metrics'', PList [m]), (''epochs'', PInt 1),
                 (''config'', PDict [(''feature_num'', fd), (''output_dim'', h), (''metrics'', PList [m])])],
              Call_MTNetKerasModel_build_train recva
                [(''mc'', u), (''metrics'', PList [m])],
              Call_TFParkKerasModel_init r],
           writes = writes s @
             [(next_addr s, ''check_optional_config''),
              (next_addr s, ''mc''),
              (next_addr s, ''model_config''),
              (next_addr s, ''internal''),
              (next_addr s, ''internal''),
              (next_addr s, ''model_'')]\<rparr>)"
  | (returns) a0 recva ignored recvb r b where
      "MTNetKerasModel_init E
         [(''check_optional_config'', PBool False), (''future_seq_len'', PNone)] = Inr a0"
      "MTNetKerasModel_get_attributes E a0
         [(''mc'', u), (''metrics'', PList [m]), (''epochs'', PInt 1),
                 (''config'', PDict [(''feature_num'', fd), (''output_dim'', h), (''metrics'', PList [m])])] = Inr (recva, ignored)"
      "MTNetKerasModel_build_train E recva
         [(''mc'', u), (''metrics'', PList [m])] = Inr (recvb, r)"
      "TFParkKerasModel_init E r = Inr b"
      "new_MTNetForecaster E h fd m u s =
         (Inr (next_addr s),
          \<lparr>heap = (heap s)
             (next_addr s \<mapsto>
                \<lparr>cls_of = MTNetForecaster,
                 attrs = [(''check_optional_config'', PBool False), (''mc'', u),
                    (''model_config'',
                       PDict [(''feature_num'', fd), (''output_dim'', h), (''metrics'', PList [m])]),
                    (''internal'', PRef (Suc (next_addr s))),
                    (''model_'', r)],
                 base = Some b\<rparr>,
              Suc (next_addr s) \<mapsto>
                \<lparr>cls_of = MTNetKerasModel,
                 attrs = recvb,
                 base = None\<rparr>),
           next_addr = Suc (Suc (next_addr s)),
           trace = trace s @
             [Call_MTNetKerasModel_init
                [(''check_optional_config'', PBool False), (''future_seq_len'', PNone)],
              Call_MTNetKerasModel_get_attributes a0
                [(''mc'', u), (''metrics'', PList [m]), (''epochs'', PInt 1),
                 (''config'', PDict [(''feature_num'', fd), (''output_dim'', h), (''metrics'', PList [m])])],
              Call_MTNetKerasModel_build_train recva
                [(''mc'', u), (''metrics'', PList [m])],
              Call_TFParkKerasModel_init r],
           writes = writes s @
             [(next_addr s, ''check_optional_config''),
              (next_addr s, ''mc''),
              (next_addr s, ''model_config''),
              (next_addr s, ''internal''),
              (next_addr s, ''internal''),
              (next_addr s, ''model_'')]\<rparr>)"
proof (cases "MTNetKerasModel_init E
         [(''check_optional_config'', PBool False), (''future_seq_len'', PNone)]")
  case (Inl e)
  show ?thesis
    by (rule ctor_raises [OF Inl]) (simp add: new_MTNetForecaster_eq Inl)
next
  case (Inr a0)
  note 0 = Inr
  show ?thesis
  proof (cases "MTNetKerasModel_get_attributes E a0
         [(''mc'', u), (''metrics'', PList [m]), (''epochs'', PInt 1),
                 (''config'', PDict [(''feature_num'', fd), (''output_dim'', h), (''metrics'', PList [m])])]")
    case (Inl e)
    show ?thesis
      by (rule attributes_raises [OF 0 Inl]) (simp add: new_MTNetForecaster_eq 0 Inl)
  next
    case (Inr p)
    obtain recva ignored where p: "p = (recva, ignored)"
      by (cases p)
    note 1 = Inr [unfolded p]
    show ?thesis
    proof (cases "MTNetKerasModel_build_train E recva
         [(''mc'', u), (''metrics'', PList [m])]")
      case (Inl e)
      show ?thesis
        by (rule train_raises [OF 0 1 Inl]) (simp add: new_MTNetForecaster_eq 0 1 Inl)
    next
      case (Inr q)
      obtain recvb r where q: "q = (recvb, r)"
        by (cases q)
      note 2 = Inr [unfolded q]
      show ?thesis
      proof (cases "TFParkKerasModel_init E r")
        case (Inl e)
        show ?thesis
          by (rule base_raises [OF 0 1 2 Inl]) (simp add: new_MTNetForecaster_eq 0 1 2 Inl)
      next
        case (Inr b)
        show ?thesis
          by (rule returns [OF 0 1 2 Inr]) (simp add: new_MTNetForecaster_eq 0 1 2 Inr)
      qed
    qed
  qed
qed

lemma new_LSTMForecaster_self:
  "fst (new_LSTMForecaster E h fd u1 d1 u2 d2 m lr u s) = Inr self \<Longrightarrow> self = next_addr s"
  by (cases rule: new_LSTMForecaster_cases [where E = E and h = h and fd = fd and ua = u1
        and da = d1 and ub = u2 and db = d2 and m = m and lr = lr and u = u and s = s])
    auto

lemma new_MTNetForecaster_self:
  "fst (new_MTNetForecaster E h fd m u s) = Inr self \<Longrightarrow> self = next_addr s"
  by (cases rule: new_MTNetForecaster_cases [where E = E and h = h and fd = fd and m = m
        and u = u and s = s])
    auto

text \<open>
  The sample runs: with the sample library, both class calls succeed in every state.
\<close>

lemma sample_LSTMForecaster_runs:
  "\<exists>self. fst (new_LSTMForecaster sample_ext h fd u1 d1 u2 d2 m lr u s) = Inr self
     \<and> fst (getattr self ''horizon''
              (snd (new_LSTMForecaster sample_ext h fd u1 d1 u2 d2 m lr u s))) = Inr h"
  by (simp add: new_LSTMForecaster_eq sample_ext_def getattr_def)

lemma sample_MTNetForecaster_runs:
  "\<exists>self. fst (new_MTNetForecaster sample_ext h fd m u s) = Inr self"
  by (simp add: new_MTNetForecaster_eq sample_ext_def)

text \<open>
  The leaf initializers first store their arguments and then run
  \<^verbatim>\<open>Forecaster.__init__\<close>. The state in which \<^verbatim>\<open>Forecaster.__init__\<close> starts holds the
  new instance with the attributes assigned so far; no external call has been made yet.
\<close>

lemma LSTMForecaster_stores_then_builds:
  "new_LSTMForecaster E h fd ua da ub db m lr u s =
     bindS (Forecaster_init E (next_addr s)) (\<lambda>_. returnS (next_addr s))
       (s\<lparr>next_addr := Suc (next_addr s),
          heap := (heap s)
             (next_addr s \<mapsto>
                \<lparr>cls_of = LSTMForecaster,
                 attrs = [(''horizon'', h), (''check_optional_config'', PBool False),
                    (''uncertainty'', u), (''feature_dim'', fd),
                    (''model_config'',
                       PDict [(''lr'', lr), (''lstm_1_units'', ua), (''dropout_1'', da),
                              (''lstm_2_units'', ub), (''dropout_2'', db), (''metric'', m)])],
                 base = None\<rparr>),
          writes := writes s @
             [(next_addr s, ''horizon''),
              (next_addr s, ''check_optional_config''),
              (next_addr s, ''uncertainty''),
              (next_addr s, ''feature_dim''),
              (next_addr s, ''model_config'')]\<rparr>)"
  by (simp del: abstractmethods.simps
      add: new_LSTMForecaster_def LSTMForecaster_init_def object_new_def
        abstractmethods_LSTMForecaster bindS_def returnS_def alloc_def setattr_def)

lemma MTNetForecaster_stores_then_builds:
  "new_MTNetForecaster E h fd m u s =
     bindS (Forecaster_init E (next_addr s)) (\<lambda>_. returnS (next_addr s))
       (s\<lparr>next_addr := Suc (next_addr s),
          heap := (heap s)
             (next_addr s \<mapsto>
                \<lparr>cls_of = MTNetForecaster,
                 attrs = [(''check_optional_config'', PBool False), (''mc'', u),
                    (''model_config'',
                       PDict [(''feature_num'', fd), (''output_dim'', h),
                              (''metrics'', PList [m])]),
                    (''internal'', PNone)],
                 base = None\<rparr>),
          writes := writes s @
             [(next_addr s, ''check_optional_config''),
              (next_addr s, ''mc''),
              (next_addr s, ''model_config''),
              (next_addr s, ''internal'')]\<rparr>)"
  by (simp del: abstractmethods.simps
      add: new_MTNetForecaster_def MTNetForecaster_init_def object_new_def
        abstractmethods_MTNetForecaster bindS_def returnS_def alloc_def setattr_def)

subsection \<open>The horizon\<close>

text \<open>
  Claim C1. Each forecaster forwards its horizon argument to the underlying model as the
  number of future steps: the \<^verbatim>\<open>future_seq_len\<close> with which the internal model is
  constructed equals the horizon given to \<^verbatim>\<open>__init__\<close>. \<^verbatim>\<open>LSTMForecaster\<close> does so
  (lemma \<open>LSTMForecaster_forwards_horizon\<close> below). \<^verbatim>\<open>MTNetForecaster\<close> does not:
  constructed with \<^verbatim>\<open>horizon=3\<close>, it constructs \<^verbatim>\<open>MTNetKerasModel\<close> with
  \<^verbatim>\<open>future_seq_len=None\<close>, and no constructor call with \<^verbatim>\<open>future_seq_len=3\<close> is made.
\<close>

theorem MTNetForecaster_horizon_3_not_forwarded:
  "fst (new_MTNetForecaster sample_ext (PInt 3) (PInt 1) (PStr ''mean_squared_error'')
          (PBool False) empty_state) = Inr 0
   \<and> hd (trace (snd (new_MTNetForecaster sample_ext (PInt 3) (PInt 1)
                       (PStr ''mean_squared_error'') (PBool False) empty_state))) =
       Call_MTNetKerasModel_init
         [(''check_optional_config'', PBool False), (''future_seq_len'', PNone)]
   \<and> Call_MTNetKerasModel_init
        [(''check_optional_config'', PBool False), (''future_seq_len'', PInt 3)]
      \<notin> set (trace (snd (new_MTNetForecaster sample_ext (PInt 3) (PInt 1)
                           (PStr ''mean_squared_error'') (PBool False) empty_state)))"
  by (simp add: new_MTNetForecaster_eq sample_ext_def empty_state_def)

lemma LSTMForecaster_forwards_horizon:
  "hd (calls_since s (snd (new_LSTMForecaster E h fd u1 d1 u2 d2 m lr u s))) =
     Call_LSTMKerasModel_init
       [(''check_optional_config'', PBool False), (''future_seq_len'', h)]"
  by (cases rule: new_LSTMForecaster_cases [where E = E and h = h and fd = fd and ua = u1
        and da = d1 and ub = u2 and db = d2 and m = m and lr = lr and u = u and s = s])
    (simp_all add: calls_since_def)

text \<open>
  Claim C8. For every horizon argument \<open>h\<close>, \<^verbatim>\<open>MTNetForecaster._build\<close> constructs
  the internal \<^verbatim>\<open>MTNetKerasModel\<close> with \<^verbatim>\<open>future_seq_len = None\<close>, whatever the
  external routines do afterwards: the constructor call is the first external call of
  every construction. The reason is that \<^verbatim>\<open>__init__\<close> stores the horizon in
  \<^verbatim>\<open>model_config\<close> under the key \<^verbatim>\<open>output_dim\<close>, the dictionary has no key
  \<^verbatim>\<open>horizon\<close>, and \<^verbatim>\<open>model_config.get('horizon')\<close> is \<^verbatim>\<open>None\<close>. (The instance
  under construction is the one at \<open>next_addr s\<close>.)
\<close>

theorem MTNetForecaster_future_seq_len_None:
  "hd (calls_since s (snd (new_MTNetForecaster E h fd m u s))) =
     Call_MTNetKerasModel_init
       [(''check_optional_config'', PBool False), (''future_seq_len'', PNone)]
   \<and> (\<exists>d. fst (getattr (next_addr s) ''model_config''
                  (snd (new_MTNetForecaster E h fd m u s))) = Inr (PDict d)
          \<and> map_of d ''output_dim'' = Some h
          \<and> map_of d ''horizon'' = None
          \<and> dict_get (PDict d) ''horizon'' = Inr PNone)"
  by (cases rule: new_MTNetForecaster_cases [where E = E and h = h and fd = fd and m = m
        and u = u and s = s])
    (simp_all add: calls_since_def getattr_def dict_get_def)

subsection \<open>Construction succeeds when the external calls do\<close>

text \<open>
  Claim C2 as stated takes as its precondition that the external model-building routines
  \<^verbatim>\<open>LSTMKerasModel._build\<close>, \<^verbatim>\<open>MTNetKerasModel._get_attributes\<close>,
  \<^verbatim>\<open>MTNetKerasModel._build_train\<close> and \<^verbatim>\<open>TFParkKerasModel.__init__\<close> succeed. That
  does not suffice: the first external call of every construction is the class call
  \<^verbatim>\<open>LSTMKerasModel(...)\<close> or \<^verbatim>\<open>MTNetKerasModel(...)\<close> in \<^verbatim>\<open>_build\<close>, and what it
  raises is not caught. With a library whose four listed routines return on every input
  and whose internal model classes reject their arguments, both constructions, with the
  default arguments of the module, raise.
\<close>

theorem construction_raises_counterexample:
  "(\<forall>recv kw. \<exists>r. LSTMKerasModel_build strict_ext recv kw = Inr r)
   \<and> (\<forall>recv kw. \<exists>r. MTNetKerasModel_get_attributes strict_ext recv kw = Inr r)
   \<and> (\<forall>recv kw. \<exists>r. MTNetKerasModel_build_train strict_ext recv kw = Inr r)
   \<and> (\<forall>model. \<exists>b. TFParkKerasModel_init strict_ext model = Inr b)
   \<and> fst (new_LSTMForecaster strict_ext (PInt 1) (PInt 1) (PInt 16) (PFloat 0.2) (PInt 8)
            (PFloat 0.2) (PStr ''mean_squared_error'') (PFloat 0.001) (PBool False)
            empty_state) = Inl (Raised ''ValueError'')
   \<and> fst (new_MTNetForecaster strict_ext (PInt 1) (PInt 1) (PStr ''mean_squared_error'')
            (PBool False) empty_state) = Inl (Raised ''ValueError'')"
  by (simp add: new_LSTMForecaster_eq new_MTNetForecaster_eq strict_ext_def sample_ext_def)

text \<open>
  Claim C2, with the precondition completed. For all hyperparameter arguments, if every
  external call that the construction makes returns (the class call of the internal
  model, then \<^verbatim>\<open>LSTMKerasModel._build\<close>, or \<^verbatim>\<open>MTNetKerasModel._get_attributes\<close> and
  \<^verbatim>\<open>MTNetKerasModel._build_train\<close>, then \<^verbatim>\<open>TFParkKerasModel.__init__\<close>, each on the
  receiver and the arguments it is given), then constructing an \<^verbatim>\<open>LSTMForecaster\<close> or an
  \<^verbatim>\<open>MTNetForecaster\<close> completes without raising, and the instance has the attributes
  \<^verbatim>\<open>model_\<close>, \<^verbatim>\<open>horizon\<close>, \<^verbatim>\<open>uncertainty\<close>, \<^verbatim>\<open>feature_dim\<close>, \<^verbatim>\<open>model_config\<close>
  (LSTM) and \<^verbatim>\<open>model_\<close>, \<^verbatim>\<open>mc\<close>, \<^verbatim>\<open>model_config\<close>, \<^verbatim>\<open>internal\<close> (MTNet).
\<close>

theorem construction_succeeds:
  "(list_all (returns_ext E)
      (calls_since s (snd (new_LSTMForecaster E h fd ua da ub db m lr u s))) \<longrightarrow>
      (\<exists>self. fst (new_LSTMForecaster E h fd ua da ub db m lr u s) = Inr self
         \<and> list_all
              (\<lambda>k. hasattr self k (snd (new_LSTMForecaster E h fd ua da ub db m lr u s)))
              [''model_'', ''horizon'', ''uncertainty'', ''feature_dim'', ''model_config'']))
   \<and> (list_all (returns_ext E) (calls_since s (snd (new_MTNetForecaster E h fd m u s))) \<longrightarrow>
      (\<exists>self. fst (new_MTNetForecaster E h fd m u s) = Inr self
         \<and> list_all (\<lambda>k. hasattr self k (snd (new_MTNetForecaster E h fd m u s)))
              [''model_'', ''mc'', ''model_config'', ''internal'']))"
proof (intro conjI impI)
  assume "list_all (returns_ext E)
      (calls_since s (snd (new_LSTMForecaster E h fd ua da ub db m lr u s)))"
  then show "\<exists>self. fst (new_LSTMForecaster E h fd ua da ub db m lr u s) = Inr self
         \<and> list_all
              (\<lambda>k. hasattr self k (snd (new_LSTMForecaster E h fd ua da ub db m lr u s)))
              [''model_'', ''horizon'', ''uncertainty'', ''feature_dim'', ''model_config'']"
    by (cases rule: new_LSTMForecaster_cases [where E = E and h = h and fd = fd and ua = ua
          and da = da and ub = ub and db = db and m = m and lr = lr and u = u and s = s])
      (simp_all add: calls_since_def returns_ext_def hasattr_def getattr_def)
next
  assume "list_all (returns_ext E) (calls_since s (snd (new_MTNetForecaster E h fd m u s)))"
  then show "\<exists>self. fst (new_MTNetForecaster E h fd m u s) = Inr self
         \<and> list_all (\<lambda>k. hasattr self k (snd (new_MTNetForecaster E h fd m u s)))
              [''model_'', ''mc'', ''model_config'', ''internal'']"
    by (cases rule: new_MTNetForecaster_cases [where E = E and h = h and fd = fd and m = m
          and u = u and s = s])
      (simp_all add: calls_since_def returns_ext_def hasattr_def getattr_def)
qed

theorem construction_succeeds_witness:
  "list_all (returns_ext sample_ext)
     (calls_since empty_state
        (snd (new_LSTMForecaster sample_ext (PInt 1) (PInt 1) (PInt 16) (PFloat 0.2)
                (PInt 8) (PFloat 0.2) (PStr ''mean_squared_error'') (PFloat 0.001)
                (PBool False) empty_state)))
   \<and> list_all (returns_ext sample_ext)
       (calls_since empty_state
          (snd (new_MTNetForecaster sample_ext (PInt 1) (PInt 1)
                  (PStr ''mean_squared_error'') (PBool False) empty_state)))
   \<and> (\<exists>self. fst (new_LSTMForecaster sample_ext (PInt 1) (PInt 1) (PInt 16) (PFloat 0.2)
                    (PInt 8) (PFloat 0.2) (PStr ''mean_squared_error'') (PFloat 0.001)
                    (PBool False) empty_state) = Inr self
        \<and> list_all
             (\<lambda>k. hasattr self k
                    (snd (new_LSTMForecaster sample_ext (PInt 1) (PInt 1) (PInt 16)
                            (PFloat 0.2) (PInt 8) (PFloat 0.2) (PStr ''mean_squared_error'')
                            (PFloat 0.001) (PBool False) empty_state)))
             [''model_'', ''horizon'', ''uncertainty'', ''feature_dim'', ''model_config''])
   \<and> (\<exists>self. fst (new_MTNetForecaster sample_ext (PInt 1) (PInt 1)
                    (PStr ''mean_squared_error'') (PBool False) empty_state) = Inr self
        \<and> list_all
             (\<lambda>k. hasattr self k
                    (snd (new_MTNetForecaster sample_ext (PInt 1) (PInt 1)
                            (PStr ''mean_squared_error'') (PBool False) empty_state)))
             [''model_'', ''mc'', ''model_config'', ''internal''])"
proof -
  have 1: "list_all (returns_ext sample_ext)
     (calls_since empty_state
        (snd (new_LSTMForecaster sample_ext (PInt 1) (PInt 1) (PInt 16) (PFloat 0.2)
                (PInt 8) (PFloat 0.2) (PStr ''mean_squared_error'') (PFloat 0.001)
                (PBool False) empty_state)))"
    by (simp add: new_LSTMForecaster_eq sample_ext_def calls_since_def returns_ext_def)
  have 2: "list_all (returns_ext sample_ext)
       (calls_since empty_state
          (snd (new_MTNetForecaster sample_ext (PInt 1) (PInt 1)
                  (PStr ''mean_squared_error'') (PBool False) empty_state)))"
    by (simp add: new_MTNetForecaster_eq sample_ext_def calls_since_def returns_ext_def)
  note T = construction_succeeds [where E = sample_ext and s = empty_state
      and h = "PInt 1" and fd = "PInt 1" and ua = "PInt 16" and da = "PFloat 0.2"
      and ub = "PInt 8" and db = "PFloat 0.2" and m = "PStr ''mean_squared_error''"
      and lr = "PFloat 0.001" and u = "PBool False"]
  note A = T [THEN conjunct1, THEN mp, OF 1]
  note B = T [THEN conjunct2, THEN mp, OF 2]
  show ?thesis
    using 1 2 A B by (intro conjI)
qed

subsection \<open>The wrapped model\<close>

lemma Forecaster_init_model:
  assumes "fst (Forecaster_init E self s) = Inr ()"
  shows "\<exists>m. fst (call_build E self s) = Inr m
           \<and> fst (getattr self ''model_'' (snd (Forecaster_init E self s))) = Inr m
           \<and> last (trace (snd (Forecaster_init E self s))) = Call_TFParkKerasModel_init m"
  using assms
  by (auto simp: Forecaster_init_def bindS_def setattr_def getattr_def super_init_def
      AList.update_conv' Let_def split: sum.splits option.splits prod.splits)

text \<open>
  Claim C3. Construction delegates model building to the external library and exposes
  the produced object through the base class. Whenever \<^verbatim>\<open>Forecaster.__init__\<close>
  completes, \<^verbatim>\<open>self.model_\<close> is the value that \<^verbatim>\<open>self._build()\<close> returned and the
  last external call is the initializer of \<^verbatim>\<open>TFParkKerasModel\<close> with that value. For
  the two concrete forecasters: whenever the external building call
  (\<^verbatim>\<open>LSTMKerasModel._build\<close>, \<^verbatim>\<open>MTNetKerasModel._build_train\<close>) returns \<open>r\<close>, the
  attribute \<^verbatim>\<open>model_\<close> is \<open>r\<close> and the one external call that follows is the base
  initializer with \<open>r\<close>, whether that initializer then raises or not.
\<close>

theorem wrapped_model_is_build_result:
  "(fst (Forecaster_init E self s) = Inr () \<longrightarrow>
      (\<exists>m. fst (call_build E self s) = Inr m
         \<and> fst (getattr self ''model_'' (snd (Forecaster_init E self s))) = Inr m
         \<and> last (trace (snd (Forecaster_init E self s))) = Call_TFParkKerasModel_init m))
   \<and> (drop 1 (calls_since t (snd (new_LSTMForecaster E h fd u1 d1 u2 d2 mt lr u t))) =
         Call_LSTMKerasModel_build recv kw # rest
       \<and> LSTMKerasModel_build E recv kw = Inr (recv', r) \<longrightarrow>
         fst (getattr (next_addr t) ''model_''
                (snd (new_LSTMForecaster E h fd u1 d1 u2 d2 mt lr u t))) = Inr r
         \<and> rest = [Call_TFParkKerasModel_init r])
   \<and> (drop 2 (calls_since t (snd (new_MTNetForecaster E h fd mt u t))) =
         Call_MTNetKerasModel_build_train recv kw # rest
       \<and> MTNetKerasModel_build_train E recv kw = Inr (recv', r) \<longrightarrow>
         fst (getattr (next_addr t) ''model_'' (snd (new_MTNetForecaster E h fd mt u t))) =
           Inr r
         \<and> rest = [Call_TFParkKerasModel_init r])"
proof (intro conjI impI)
  assume "fst (Forecaster_init E self s) = Inr ()"
  then show "\<exists>m. fst (call_build E self s) = Inr m
         \<and> fst (getattr self ''model_'' (snd (Forecaster_init E self s))) = Inr m
         \<and> last (trace (snd (Forecaster_init E self s))) = Call_TFParkKerasModel_init m"
    by (rule Forecaster_init_model)
next
  assume a: "drop 1 (calls_since t (snd (new_LSTMForecaster E h fd u1 d1 u2 d2 mt lr u t))) =
         Call_LSTMKerasModel_build recv kw # rest
       \<and> LSTMKerasModel_build E recv kw = Inr (recv', r)"
  show "fst (getattr (next_addr t) ''model_''
                (snd (new_LSTMForecaster E h fd u1 d1 u2 d2 mt lr u t))) = Inr r"
    using a
    by (cases rule: new_LSTMForecaster_cases [where E = E and h = h and fd = fd and ua = u1
          and da = d1 and ub = u2 and db = d2 and m = mt and lr = lr and u = u and s = t])
      (auto simp: calls_since_def getattr_def)
  show "rest = [Call_TFParkKerasModel_init r]"
    using a
    by (cases rule: new_LSTMForecaster_cases [where E = E and h = h and fd = fd and ua = u1
          and da = d1 and ub = u2 and db = d2 and m = mt and lr = lr and u = u and s = t])
      (auto simp: calls_since_def)
next
  assume a: "drop 2 (calls_since t (snd (new_MTNetForecaster E h fd mt u t))) =
         Call_MTNetKerasModel_build_train recv kw # rest
       \<and> MTNetKerasModel_build_train E recv kw = Inr (recv', r)"
  show "fst (getattr (next_addr t) ''model_'' (snd (new_MTNetForecaster E h fd mt u t))) =
           Inr r"
    using a
    by (cases rule: new_MTNetForecaster_cases [where E = E and h = h and fd = fd and m = mt
          and u = u and s = t])
      (auto simp: calls_since_def getattr_def)
  show "rest = [Call_TFParkKerasModel_init r]"
    using a
    by (cases rule: new_MTNetForecaster_cases [where E = E and h = h and fd = fd and m = mt
          and u = u and s = t])
      (auto simp: calls_since_def)
qed

theorem wrapped_model_is_build_result_witness:
  "(\<exists>m. fst (Forecaster_init sample_ext 0
             \<lparr>heap = [0 \<mapsto>
                \<lparr>cls_of = MTNetForecaster,
                 attrs = [(''check_optional_config'', PBool False), (''mc'', PBool True),
                          (''model_config'',
                             PDict [(''feature_num'', PInt 2), (''output_dim'', PInt 3),
                                    (''metrics'', PList [PStr ''mean_squared_error''])]),
                          (''internal'', PNone)],
                 base = None\<rparr>],
              next_addr = 1, trace = [], writes = []\<rparr>) = Inr ()
       \<and> fst (call_build sample_ext 0
             \<lparr>heap = [0 \<mapsto>
                \<lparr>cls_of = MTNetForecaster,
                 attrs = [(''check_optional_config'', PBool False), (''mc'', PBool True),
                          (''model_config'',
                             PDict [(''feature_num'', PInt 2), (''output_dim'', PInt 3),
                                    (''metrics'', PList [PStr ''mean_squared_error''])]),
                          (''internal'', PNone)],
                 base = None\<rparr>],
              next_addr = 1, trace = [], writes = []\<rparr>) = Inr m
       \<and> fst (getattr 0 ''model_'' (snd (Forecaster_init sample_ext 0
             \<lparr>heap = [0 \<mapsto>
                \<lparr>cls_of = MTNetForecaster,
                 attrs = [(''check_optional_config'', PBool False), (''mc'', PBool True),
                          (''model_config'',
                             PDict [(''feature_num'', PInt 2), (''output_dim'', PInt 3),
                                    (''metrics'', PList [PStr ''mean_squared_error''])]),
                          (''internal'', PNone)],
                 base = None\<rparr>],
              next_addr = 1, trace = [], writes = []\<rparr>))) = Inr m)
   \<and> fst (getattr 0 ''model_''
          (snd (new_LSTMForecaster sample_ext (PInt 3) (PInt 2) (PInt 16) (PFloat 0.2)
                  (PInt 8) (PFloat 0.2) (PStr ''mean_squared_error'') (PFloat 0.001)
                  (PBool True) empty_state))) = Inr (PExt 1)
   \<and> fst (getattr 0 ''model_''
          (snd (new_MTNetForecaster sample_ext (PInt 3) (PInt 2)
                  (PStr ''mean_squared_error'') (PBool True) empty_state))) = Inr (PExt 2)"
proof -
  let ?S0 = "\<lparr>heap = [0 \<mapsto>
                \<lparr>cls_of = MTNetForecaster,
                 attrs = [(''check_optional_config'', PBool False), (''mc'', PBool True),
                          (''model_config'',
                             PDict [(''feature_num'', PInt 2), (''output_dim'', PInt 3),
                                    (''metrics'', PList [PStr ''mean_squared_error''])]),
                          (''internal'', PNone)],
                 base = None\<rparr>],
              next_addr = 1, trace = [], writes = []\<rparr> :: nat state"
  have h0: "fst (Forecaster_init sample_ext 0 ?S0) = Inr ()"
    unfolding Forecaster_init_def call_build_def MTNetForecaster_build_def
    by (simp add: prims sample_ext_def Let_def)
  note A = wrapped_model_is_build_result [THEN conjunct1, THEN mp, OF h0]
  have h1: "drop 1 (calls_since empty_state
          (snd (new_LSTMForecaster sample_ext (PInt 3) (PInt 2) (PInt 16) (PFloat 0.2)
                  (PInt 8) (PFloat 0.2) (PStr ''mean_squared_error'') (PFloat 0.001)
                  (PBool True) empty_state))) =
        Call_LSTMKerasModel_build
          [(''check_optional_config'', PBool False), (''future_seq_len'', PInt 3),
           (''feature_num'', PInt 2), (''model'', PNone)]
          [(''mc'', PBool True), (''lr'', PFloat 0.001), (''lstm_1_units'', PInt 16),
           (''dropout_1'', PFloat 0.2), (''lstm_2_units'', PInt 8),
           (''dropout_2'', PFloat 0.2), (''metric'', PStr ''mean_squared_error'')]
        # [Call_TFParkKerasModel_init (PExt 1)]
      \<and> LSTMKerasModel_build sample_ext
          [(''check_optional_config'', PBool False), (''future_seq_len'', PInt 3),
           (''feature_num'', PInt 2), (''model'', PNone)]
          [(''mc'', PBool True), (''lr'', PFloat 0.001), (''lstm_1_units'', PInt 16),
           (''dropout_1'', PFloat 0.2), (''lstm_2_units'', PInt 8),
           (''dropout_2'', PFloat 0.2), (''metric'', PStr ''mean_squared_error'')] =
        Inr ([(''check_optional_config'', PBool False), (''future_seq_len'', PInt 3),
              (''feature_num'', PInt 2), (''model'', PNone)], PExt 1)"
    by (simp add: new_LSTMForecaster_eq sample_ext_def calls_since_def)
  note B = wrapped_model_is_build_result [THEN conjunct2, THEN conjunct1, THEN mp, OF h1,
      THEN conjunct1]
  have h2: "drop 2 (calls_since empty_state
          (snd (new_MTNetForecaster sample_ext (PInt 3) (PInt 2)
                  (PStr ''mean_squared_error'') (PBool True) empty_state))) =
        Call_MTNetKerasModel_build_train
          [(''check_optional_config'', PBool False), (''future_seq_len'', PNone),
           (''model'', PNone), (''mc'', PBool True),
           (''metrics'', PList [PStr ''mean_squared_error'']), (''epochs'', PInt 1),
           (''config'', PDict [(''feature_num'', PInt 2), (''output_dim'', PInt 3),
                               (''metrics'', PList [PStr ''mean_squared_error''])])]
          [(''mc'', PBool True), (''metrics'', PList [PStr ''mean_squared_error''])]
        # [Call_TFParkKerasModel_init (PExt 2)]
      \<and> MTNetKerasModel_build_train sample_ext
          [(''check_optional_config'', PBool False), (''future_seq_len'', PNone),
           (''model'', PNone), (''mc'', PBool True),
           (''metrics'', PList [PStr ''mean_squared_error'']), (''epochs'', PInt 1),
           (''config'', PDict [(''feature_num'', PInt 2), (''output_dim'', PInt 3),
                               (''metrics'', PList [PStr ''mean_squared_error''])])]
          [(''mc'', PBool True), (''metrics'', PList [PStr ''mean_squared_error''])] =
        Inr ([(''check_optional_config'', PBool False), (''future_seq_len'', PNone),
              (''model'', PNone), (''mc'', PBool True),
              (''metrics'', PList [PStr ''mean_squared_error'']), (''epochs'', PInt 1),
              (''config'', PDict [(''feature_num'', PInt 2), (''output_dim'', PInt 3),
                                  (''metrics'', PList [PStr ''mean_squared_error''])])],
             PExt 2)"
    by (simp add: new_MTNetForecaster_eq sample_ext_def calls_since_def)
  note C = wrapped_model_is_build_result [THEN conjunct2, THEN conjunct2, THEN mp, OF h2,
      THEN conjunct1]
  have n0: "next_addr empty_state = 0"
    by (simp add: empty_state_def)
  from A h0 have a: "\<exists>m. fst (Forecaster_init sample_ext 0 ?S0) = Inr ()
       \<and> fst (call_build sample_ext 0 ?S0) = Inr m
       \<and> fst (getattr 0 ''model_'' (snd (Forecaster_init sample_ext 0 ?S0))) = Inr m"
    by blast
  show ?thesis
    using a B [unfolded n0] C [unfolded n0] by (intro conjI)
qed

subsection \<open>The hyperparameter dictionary\<close>

text \<open>
  Claim C4. Each leaf forecaster stores its hyperparameters in a dictionary and forwards
  it to the external model. When \<^verbatim>\<open>LSTMForecaster.__init__\<close> has stored its arguments
  and goes on to \<^verbatim>\<open>Forecaster.__init__\<close>, before any external call is made,
  \<^verbatim>\<open>model_config\<close> is exactly the keys \<^verbatim>\<open>lr\<close>, \<^verbatim>\<open>lstm_1_units\<close>, \<^verbatim>\<open>dropout_1\<close>,
  \<^verbatim>\<open>lstm_2_units\<close>, \<^verbatim>\<open>dropout_2\<close>, \<^verbatim>\<open>metric\<close>, bound to the arguments of these names;
  and whenever the class call of the internal model returns, the next external call is
  the internal model's \<^verbatim>\<open>_build\<close> with the items of that dictionary as keyword
  arguments (after \<^verbatim>\<open>mc\<close>). When \<^verbatim>\<open>MTNetForecaster.__init__\<close> has stored its
  arguments, before any external call is made, \<^verbatim>\<open>model_config\<close> is exactly
  \<^verbatim>\<open>feature_num=feature_dim\<close>, \<^verbatim>\<open>output_dim=horizon\<close>, \<^verbatim>\<open>metrics=[metric]\<close>; and
  whenever the class call of the internal model returns, the next external call is
  \<^verbatim>\<open>_get_attributes\<close> with that dictionary as the argument \<^verbatim>\<open>config\<close>. (The instance
  under construction is the one at \<open>next_addr s\<close>; \<open>s0\<close> is the state in which
  \<^verbatim>\<open>Forecaster.__init__\<close> starts.)
\<close>

theorem model_config_forwarded:
  "(\<exists>s0. trace s0 = trace s
        \<and> fst (getattr (next_addr s) ''model_config'' s0) =
            Inr (PDict [(''lr'', lr), (''lstm_1_units'', ua), (''dropout_1'', da),
                        (''lstm_2_units'', ub), (''dropout_2'', db), (''metric'', mt)])
        \<and> new_LSTMForecaster E h fd ua da ub db mt lr u s =
            bindS (Forecaster_init E (next_addr s)) (\<lambda>_. returnS (next_addr s)) s0)
   \<and> (\<exists>kw0. hd (calls_since s (snd (new_LSTMForecaster E h fd ua da ub db mt lr u s))) =
          Call_LSTMKerasModel_init kw0
        \<and> (\<forall>a0. LSTMKerasModel_init E kw0 = Inr a0 \<longrightarrow>
              (\<exists>recv.
                 1 < length (calls_since s
                               (snd (new_LSTMForecaster E h fd ua da ub db mt lr u s)))
                 \<and> calls_since s (snd (new_LSTMForecaster E h fd ua da ub db mt lr u s)) ! 1 =
                     Call_LSTMKerasModel_build recv
                       ((''mc'', u) #
                        [(''lr'', lr), (''lstm_1_units'', ua), (''dropout_1'', da),
                         (''lstm_2_units'', ub), (''dropout_2'', db), (''metric'', mt)]))))
   \<and> (\<exists>s0. trace s0 = trace s
        \<and> fst (getattr (next_addr s) ''model_config'' s0) =
            Inr (PDict [(''feature_num'', fd), (''output_dim'', h),
                        (''metrics'', PList [mt])])
        \<and> new_MTNetForecaster E h fd mt u s =
            bindS (Forecaster_init E (next_addr s)) (\<lambda>_. returnS (next_addr s)) s0)
   \<and> (\<exists>kw0. hd (calls_since s (snd (new_MTNetForecaster E h fd mt u s))) =
          Call_MTNetKerasModel_init kw0
        \<and> (\<forall>a0. MTNetKerasModel_init E kw0 = Inr a0 \<longrightarrow>
              (\<exists>recv kw.
                 1 < length (calls_since s (snd (new_MTNetForecaster E h fd mt u s)))
                 \<and> calls_since s (snd (new_MTNetForecaster E h fd mt u s)) ! 1 =
                     Call_MTNetKerasModel_get_attributes recv kw
                 \<and> map_of kw ''config'' =
                     Some (PDict [(''feature_num'', fd), (''output_dim'', h),
                                  (''metrics'', PList [mt])]))))"
proof (intro conjI)
  show "\<exists>s0. trace s0 = trace s
        \<and> fst (getattr (next_addr s) ''model_config'' s0) =
            Inr (PDict [(''lr'', lr), (''lstm_1_units'', ua), (''dropout_1'', da),
                        (''lstm_2_units'', ub), (''dropout_2'', db), (''metric'', mt)])
        \<and> new_LSTMForecaster E h fd ua da ub db mt lr u s =
            bindS (Forecaster_init E (next_addr s)) (\<lambda>_. returnS (next_addr s)) s0"
    apply (intro exI conjI)
      prefer 3
      apply (rule LSTMForecaster_stores_then_builds)
     apply (simp_all add: getattr_def)
    done
  show "\<exists>kw0. hd (calls_since s (snd (new_LSTMForecaster E h fd ua da ub db mt lr u s))) =
          Call_LSTMKerasModel_init kw0
        \<and> (\<forall>a0. LSTMKerasModel_init E kw0 = Inr a0 \<longrightarrow>
              (\<exists>recv.
                 1 < length (calls_since s
                               (snd (new_LSTMForecaster E h fd ua da ub db mt lr u s)))
                 \<and> calls_since s (snd (new_LSTMForecaster E h fd ua da ub db mt lr u s)) ! 1 =
                     Call_LSTMKerasModel_build recv
                       ((''mc'', u) #
                        [(''lr'', lr), (''lstm_1_units'', ua), (''dropout_1'', da),
                         (''lstm_2_units'', ub), (''dropout_2'', db), (''metric'', mt)])))"
    by (cases rule: new_LSTMForecaster_cases [where E = E and h = h and fd = fd and ua = ua
          and da = da and ub = ub and db = db and m = mt and lr = lr and u = u and s = s])
      (simp_all add: calls_since_def)
  show "\<exists>s0. trace s0 = trace s
        \<and> fst (getattr (next_addr s) ''model_config'' s0) =
            Inr (PDict [(''feature_num'', fd), (''output_dim'', h),
                        (''metrics'', PList [mt])])
        \<and> new_MTNetForecaster E h fd mt u s =
            bindS (Forecaster_init E (next_addr s)) (\<lambda>_. returnS (next_addr s)) s0"
    apply (intro exI conjI)
      prefer 3
      apply (rule MTNetForecaster_stores_then_builds)
     apply (simp_all add: getattr_def)
    done
  show "\<exists>kw0. hd (calls_since s (snd (new_MTNetForecaster E h fd mt u s))) =
          Call_MTNetKerasModel_init kw0
        \<and> (\<forall>a0. MTNetKerasModel_init E kw0 = Inr a0 \<longrightarrow>
              (\<exists>recv kw.
                 1 < length (calls_since s (snd (new_MTNetForecaster E h fd mt u s)))
                 \<and> calls_since s (snd (new_MTNetForecaster E h fd mt u s)) ! 1 =
                     Call_MTNetKerasModel_get_attributes recv kw
                 \<and> map_of kw ''config'' =
                     Some (PDict [(''feature_num'', fd), (''output_dim'', h),
                                  (''metrics'', PList [mt])])))"
    by (cases rule: new_MTNetForecaster_cases [where E = E and h = h and fd = fd and m = mt
          and u = u and s = s])
      (simp_all add: calls_since_def)
qed

theorem model_config_forwarded_witness:
  "(\<exists>recv. calls_since empty_state
       (snd (new_LSTMForecaster sample_ext (PInt 3) (PInt 2) (PInt 16) (PFloat 0.2) (PInt 8)
               (PFloat 0.2) (PStr ''mean_squared_error'') (PFloat 0.001) (PBool True)
               empty_state)) ! 1 =
       Call_LSTMKerasModel_build recv
         [(''mc'', PBool True), (''lr'', PFloat 0.001), (''lstm_1_units'', PInt 16),
          (''dropout_1'', PFloat 0.2), (''lstm_2_units'', PInt 8),
          (''dropout_2'', PFloat 0.2), (''metric'', PStr ''mean_squared_error'')])
   \<and> (\<exists>recv kw. calls_since empty_state
         (snd (new_MTNetForecaster sample_ext (PInt 3) (PInt 2) (PStr ''mean_squared_error'')
                 (PBool True) empty_state)) ! 1 =
         Call_MTNetKerasModel_get_attributes recv kw
       \<and> map_of kw ''config'' =
           Some (PDict [(''feature_num'', PInt 2), (''output_dim'', PInt 3),
                        (''metrics'', PList [PStr ''mean_squared_error''])]))"
proof -
  note T = model_config_forwarded [where E = sample_ext and s = empty_state
      and h = "PInt 3" and fd = "PInt 2" and ua = "PInt 16" and da = "PFloat 0.2"
      and ub = "PInt 8" and db = "PFloat 0.2" and mt = "PStr ''mean_squared_error''"
      and lr = "PFloat 0.001" and u = "PBool True"]
  from T [THEN conjunct2, THEN conjunct1]
  obtain kw0 where
    1: "\<And>a0. LSTMKerasModel_init sample_ext kw0 = Inr a0 \<Longrightarrow>
          \<exists>recv. calls_since empty_state
            (snd (new_LSTMForecaster sample_ext (PInt 3) (PInt 2) (PInt 16) (PFloat 0.2)
                    (PInt 8) (PFloat 0.2) (PStr ''mean_squared_error'') (PFloat 0.001)
                    (PBool True) empty_state)) ! 1 =
            Call_LSTMKerasModel_build recv
              [(''mc'', PBool True), (''lr'', PFloat 0.001), (''lstm_1_units'', PInt 16),
               (''dropout_1'', PFloat 0.2), (''lstm_2_units'', PInt 8),
               (''dropout_2'', PFloat 0.2), (''metric'', PStr ''mean_squared_error'')]"
    by blast
  have 2: "LSTMKerasModel_init sample_ext kw0 =
      Inr (kw0 @ [(''feature_num'', PNone), (''model'', PNone)])"
    by (simp add: sample_ext_def)
  from T [THEN conjunct2, THEN conjunct2, THEN conjunct2]
  obtain kw1 where
    3: "\<And>a0. MTNetKerasModel_init sample_ext kw1 = Inr a0 \<Longrightarrow>
          \<exists>recv kw. calls_since empty_state
            (snd (new_MTNetForecaster sample_ext (PInt 3) (PInt 2)
                    (PStr ''mean_squared_error'') (PBool True) empty_state)) ! 1 =
            Call_MTNetKerasModel_get_attributes recv kw
          \<and> map_of kw ''config'' =
              Some (PDict [(''feature_num'', PInt 2), (''output_dim'', PInt 3),
                           (''metrics'', PList [PStr ''mean_squared_error''])])"
    by blast
  have 4: "MTNetKerasModel_init sample_ext kw1 = Inr (kw1 @ [(''model'', PNone)])"
    by (simp add: sample_ext_def)
  from 1 [OF 2] 3 [OF 4] show ?thesis
    by (intro conjI)
qed

subsection \<open>The uncertainty flag\<close>

text \<open>
  Claim C5. For every boolean \<open>u\<close> given as \<^verbatim>\<open>uncertainty\<close>, the flag reaches the
  underlying model unchanged. Every call of \<^verbatim>\<open>LSTMKerasModel._build\<close>, of
  \<^verbatim>\<open>MTNetKerasModel._get_attributes\<close> and of \<^verbatim>\<open>MTNetKerasModel._build_train\<close> that a
  construction makes binds \<^verbatim>\<open>mc\<close> to \<open>u\<close>. And the calls are made:
  \<^verbatim>\<open>LSTMForecaster._build\<close> calls the internal model's \<^verbatim>\<open>_build\<close> with \<^verbatim>\<open>mc=u\<close> once
  the class call of the internal model has returned; \<^verbatim>\<open>MTNetForecaster._build\<close> calls
  \<^verbatim>\<open>_get_attributes\<close> with \<^verbatim>\<open>mc=u\<close> once the class call has returned and, when
  \<^verbatim>\<open>_get_attributes\<close> returns, \<^verbatim>\<open>_build_train\<close> on the same instance with
  \<^verbatim>\<open>mc=u\<close>.
\<close>

theorem uncertainty_forwarded_as_mc:
  "(\<forall>recv kw. Call_LSTMKerasModel_build recv kw
        \<in> set (calls_since s (snd (new_LSTMForecaster E h fd ua da ub db mt lr (PBool u) s)))
        \<longrightarrow> map_of kw ''mc'' = Some (PBool u))
   \<and> (\<exists>kw0. hd (calls_since s
                   (snd (new_LSTMForecaster E h fd ua da ub db mt lr (PBool u) s))) =
          Call_LSTMKerasModel_init kw0
        \<and> (\<forall>a0. LSTMKerasModel_init E kw0 = Inr a0 \<longrightarrow>
              (\<exists>recv kw.
                 1 < length (calls_since s
                      (snd (new_LSTMForecaster E h fd ua da ub db mt lr (PBool u) s)))
                 \<and> calls_since s
                      (snd (new_LSTMForecaster E h fd ua da ub db mt lr (PBool u) s)) ! 1 =
                     Call_LSTMKerasModel_build recv kw
                 \<and> map_of kw ''mc'' = Some (PBool u))))
   \<and> (\<forall>recv kw. Call_MTNetKerasModel_get_attributes recv kw
          \<in> set (calls_since s (snd (new_MTNetForecaster E h fd mt (PBool u) s)))
          \<longrightarrow> map_of kw ''mc'' = Some (PBool u))
   \<and> (\<forall>recv kw. Call_MTNetKerasModel_build_train recv kw
          \<in> set (calls_since s (snd (new_MTNetForecaster E h fd mt (PBool u) s)))
          \<longrightarrow> map_of kw ''mc'' = Some (PBool u))
   \<and> (\<exists>kw0. hd (calls_since s (snd (new_MTNetForecaster E h fd mt (PBool u) s))) =
          Call_MTNetKerasModel_init kw0
        \<and> (\<forall>a0. MTNetKerasModel_init E kw0 = Inr a0 \<longrightarrow>
              (\<exists>recv1 kw1.
                 1 < length (calls_since s (snd (new_MTNetForecaster E h fd mt (PBool u) s)))
                 \<and> calls_since s (snd (new_MTNetForecaster E h fd mt (PBool u) s)) ! 1 =
                     Call_MTNetKerasModel_get_attributes recv1 kw1
                 \<and> map_of kw1 ''mc'' = Some (PBool u)
                 \<and> (\<forall>recv2 x. MTNetKerasModel_get_attributes E recv1 kw1 = Inr (recv2, x) \<longrightarrow>
                       (\<exists>kw2.
                          2 < length (calls_since s
                                 (snd (new_MTNetForecaster E h fd mt (PBool u) s)))
                          \<and> calls_since s
                               (snd (new_MTNetForecaster E h fd mt (PBool u) s)) ! 2 =
                              Call_MTNetKerasModel_build_train recv2 kw2
                          \<and> map_of kw2 ''mc'' = Some (PBool u))))))"
proof (intro conjI)
  show "\<forall>recv kw. Call_LSTMKerasModel_build recv kw
        \<in> set (calls_since s (snd (new_LSTMForecaster E h fd ua da ub db mt lr (PBool u) s)))
        \<longrightarrow> map_of kw ''mc'' = Some (PBool u)"
    by (cases rule: new_LSTMForecaster_cases [where E = E and h = h and fd = fd and ua = ua
          and da = da and ub = ub and db = db and m = mt and lr = lr and u = "PBool u"
          and s = s])
      (auto simp: calls_since_def)
  show "\<exists>kw0. hd (calls_since s
                   (snd (new_LSTMForecaster E h fd ua da ub db mt lr (PBool u) s))) =
          Call_LSTMKerasModel_init kw0
        \<and> (\<forall>a0. LSTMKerasModel_init E kw0 = Inr a0 \<longrightarrow>
              (\<exists>recv kw.
                 1 < length (calls_since s
                      (snd (new_LSTMForecaster E h fd ua da ub db mt lr (PBool u) s)))
                 \<and> calls_since s
                      (snd (new_LSTMForecaster E h fd ua da ub db mt lr (PBool u) s)) ! 1 =
                     Call_LSTMKerasModel_build recv kw
                 \<and> map_of kw ''mc'' = Some (PBool u)))"
    by (cases rule: new_LSTMForecaster_cases [where E = E and h = h and fd = fd and ua = ua
          and da = da and ub = ub and db = db and m = mt and lr = lr and u = "PBool u"
          and s = s])
      (simp_all add: calls_since_def)
  show "\<forall>recv kw. Call_MTNetKerasModel_get_attributes recv kw
          \<in> set (calls_since s (snd (new_MTNetForecaster E h fd mt (PBool u) s)))
          \<longrightarrow> map_of kw ''mc'' = Some (PBool u)"
    by (cases rule: new_MTNetForecaster_cases [where E = E and h = h and fd = fd and m = mt
          and u = "PBool u" and s = s])
      (auto simp: calls_since_def)
  show "\<forall>recv kw. Call_MTNetKerasModel_build_train recv kw
          \<in> set (calls_since s (snd (new_MTNetForecaster E h fd mt (PBool u) s)))
          \<longrightarrow> map_of kw ''mc'' = Some (PBool u)"
    by (cases rule: new_MTNetForecaster_cases [where E = E and h = h and fd = fd and m = mt
          and u = "PBool u" and s = s])
      (auto simp: calls_since_def)
  show "\<exists>kw0. hd (calls_since s (snd (new_MTNetForecaster E h fd mt (PBool u) s))) =
          Call_MTNetKerasModel_init kw0
        \<and> (\<forall>a0. MTNetKerasModel_init E kw0 = Inr a0 \<longrightarrow>
              (\<exists>recv1 kw1.
                 1 < length (calls_since s (snd (new_MTNetForecaster E h fd mt (PBool u) s)))
                 \<and> calls_since s (snd (new_MTNetForecaster E h fd mt (PBool u) s)) ! 1 =
                     Call_MTNetKerasModel_get_attributes recv1 kw1
                 \<and> map_of kw1 ''mc'' = Some (PBool u)
                 \<and> (\<forall>recv2 x. MTNetKerasModel_get_attributes E recv1 kw1 = Inr (recv2, x) \<longrightarrow>
                       (\<exists>kw2.
                          2 < length (calls_since s
                                 (snd (new_MTNetForecaster E h fd mt (PBool u) s)))
                          \<and> calls_since s
                               (snd (new_MTNetForecaster E h fd mt (PBool u) s)) ! 2 =
                              Call_MTNetKerasModel_build_train recv2 kw2
                          \<and> map_of kw2 ''mc'' = Some (PBool u)))))"
    by (cases rule: new_MTNetForecaster_cases [where E = E and h = h and fd = fd and m = mt
          and u = "PBool u" and s = s])
      (simp_all add: calls_since_def)
qed

theorem uncertainty_forwarded_as_mc_witness:
  "(\<exists>kw0 a0 recv kw.
      hd (calls_since empty_state
        (snd (new_LSTMForecaster sample_ext (PInt 3) (PInt 2) (PInt 16) (PFloat 0.2) (PInt 8)
                (PFloat 0.2) (PStr ''mean_squared_error'') (PFloat 0.001) (PBool True)
                empty_state))) = Call_LSTMKerasModel_init kw0
      \<and> LSTMKerasModel_init sample_ext kw0 = Inr a0
      \<and> calls_since empty_state
        (snd (new_LSTMForecaster sample_ext (PInt 3) (PInt 2) (PInt 16) (PFloat 0.2) (PInt 8)
                (PFloat 0.2) (PStr ''mean_squared_error'') (PFloat 0.001) (PBool True)
                empty_state)) ! 1 = Call_LSTMKerasModel_build recv kw
      \<and> Call_LSTMKerasModel_build recv kw
          \<in> set (calls_since empty_state
            (snd (new_LSTMForecaster sample_ext (PInt 3) (PInt 2) (PInt 16) (PFloat 0.2)
                    (PInt 8) (PFloat 0.2) (PStr ''mean_squared_error'') (PFloat 0.001)
                    (PBool True) empty_state)))
      \<and> map_of kw ''mc'' = Some (PBool True))
   \<and> (\<exists>kw0 a0 recv1 kw1 recv2 x kw2.
     hd (calls_since empty_state
       (snd (new_MTNetForecaster sample_ext (PInt 3) (PInt 2) (PStr ''mean_squared_error'')
               (PBool True) empty_state))) = Call_MTNetKerasModel_init kw0
     \<and> MTNetKerasModel_init sample_ext kw0 = Inr a0
     \<and> calls_since empty_state
       (snd (new_MTNetForecaster sample_ext (PInt 3) (PInt 2) (PStr ''mean_squared_error'')
               (PBool True) empty_state)) ! 1 =
       Call_MTNetKerasModel_get_attributes recv1 kw1
     \<and> Call_MTNetKerasModel_get_attributes recv1 kw1
         \<in> set (calls_since empty_state
           (snd (new_MTNetForecaster sample_ext (PInt 3) (PInt 2)
                   (PStr ''mean_squared_error'') (PBool True) empty_state)))
     \<and> map_of kw1 ''mc'' = Some (PBool True)
     \<and> MTNetKerasModel_get_attributes sample_ext recv1 kw1 = Inr (recv2, x)
     \<and> calls_since empty_state
         (snd (new_MTNetForecaster sample_ext (PInt 3) (PInt 2) (PStr ''mean_squared_error'')
                 (PBool True) empty_state)) ! 2 =
         Call_MTNetKerasModel_build_train recv2 kw2
     \<and> Call_MTNetKerasModel_build_train recv2 kw2
         \<in> set (calls_since empty_state
           (snd (new_MTNetForecaster sample_ext (PInt 3) (PInt 2)
                   (PStr ''mean_squared_error'') (PBool True) empty_state)))
     \<and> map_of kw2 ''mc'' = Some (PBool True))"
proof -
  let ?L = "calls_since empty_state
       (snd (new_LSTMForecaster sample_ext (PInt 3) (PInt 2) (PInt 16) (PFloat 0.2) (PInt 8)
               (PFloat 0.2) (PStr ''mean_squared_error'') (PFloat 0.001) (PBool True)
               empty_state))"
  let ?C = "calls_since empty_state
       (snd (new_MTNetForecaster sample_ext (PInt 3) (PInt 2) (PStr ''mean_squared_error'')
               (PBool True) empty_state))"
  note T = uncertainty_forwarded_as_mc [where E = sample_ext and s = empty_state
      and h = "PInt 3" and fd = "PInt 2" and ua = "PInt 16" and da = "PFloat 0.2"
      and ub = "PInt 8" and db = "PFloat 0.2" and mt = "PStr ''mean_squared_error''"
      and lr = "PFloat 0.001" and u = True]
  from T [THEN conjunct2, THEN conjunct1]
  obtain kl where
    Lk: "hd ?L = Call_LSTMKerasModel_init kl
        \<and> (\<forall>a0. LSTMKerasModel_init sample_ext kl = Inr a0 \<longrightarrow>
              (\<exists>recv kw.
                 1 < length ?L
                 \<and> ?L ! 1 = Call_LSTMKerasModel_build recv kw
                 \<and> map_of kw ''mc'' = Some (PBool True)))" ..
  have 1: "LSTMKerasModel_init sample_ext kl =
      Inr (kl @ [(''feature_num'', PNone), (''model'', PNone)])"
    by (simp add: sample_ext_def)
  from Lk [THEN conjunct2, rule_format, OF 1]
  obtain recv kw where
    Lm: "1 < length ?L \<and> ?L ! 1 = Call_LSTMKerasModel_build recv kw
        \<and> map_of kw ''mc'' = Some (PBool True)"
    by (elim exE) (rule that)
  from Lm have memL: "Call_LSTMKerasModel_build recv kw \<in> set ?L"
    by (metis nth_mem)
  note mcL = T [THEN conjunct1, rule_format, OF memL]
  from Lk [THEN conjunct1] 1 Lm [THEN conjunct2, THEN conjunct1] memL mcL
  have lstm: "\<exists>kw0 a0 recv kw.
      hd ?L = Call_LSTMKerasModel_init kw0
      \<and> LSTMKerasModel_init sample_ext kw0 = Inr a0
      \<and> ?L ! 1 = Call_LSTMKerasModel_build recv kw
      \<and> Call_LSTMKerasModel_build recv kw \<in> set ?L
      \<and> map_of kw ''mc'' = Some (PBool True)"
    by (intro exI conjI)
  from T [THEN conjunct2, THEN conjunct2, THEN conjunct2, THEN conjunct2]
  obtain kw0 where
    K: "hd ?C = Call_MTNetKerasModel_init kw0
        \<and> (\<forall>a0. MTNetKerasModel_init sample_ext kw0 = Inr a0 \<longrightarrow>
              (\<exists>recv1 kw1.
                 1 < length ?C
                 \<and> ?C ! 1 = Call_MTNetKerasModel_get_attributes recv1 kw1
                 \<and> map_of kw1 ''mc'' = Some (PBool True)
                 \<and> (\<forall>recv2 x. MTNetKerasModel_get_attributes sample_ext recv1 kw1 =
                         Inr (recv2, x) \<longrightarrow>
                       (\<exists>kw2. 2 < length ?C
                          \<and> ?C ! 2 = Call_MTNetKerasModel_build_train recv2 kw2
                          \<and> map_of kw2 ''mc'' = Some (PBool True)))))" ..
  have 2: "MTNetKerasModel_init sample_ext kw0 = Inr (kw0 @ [(''model'', PNone)])"
    by (simp add: sample_ext_def)
  from K [THEN conjunct2, rule_format, OF 2]
  obtain recv1 kw1 where
    M: "1 < length ?C
        \<and> ?C ! 1 = Call_MTNetKerasModel_get_attributes recv1 kw1
        \<and> map_of kw1 ''mc'' = Some (PBool True)
        \<and> (\<forall>recv2 x. MTNetKerasModel_get_attributes sample_ext recv1 kw1 =
                Inr (recv2, x) \<longrightarrow>
              (\<exists>kw2. 2 < length ?C
                 \<and> ?C ! 2 = Call_MTNetKerasModel_build_train recv2 kw2
                 \<and> map_of kw2 ''mc'' = Some (PBool True)))"
    by (elim exE) (rule that)
  have 6: "MTNetKerasModel_get_attributes sample_ext recv1 kw1 = Inr (recv1 @ kw1, PNone)"
    by (simp add: sample_ext_def)
  from M [THEN conjunct2, THEN conjunct2, THEN conjunct2, rule_format, OF 6]
  obtain kw2 where
    N: "2 < length ?C
        \<and> ?C ! 2 = Call_MTNetKerasModel_build_train (recv1 @ kw1) kw2
        \<and> map_of kw2 ''mc'' = Some (PBool True)" ..
  from M have memA: "Call_MTNetKerasModel_get_attributes recv1 kw1 \<in> set ?C"
    by (metis nth_mem)
  from N have memT: "Call_MTNetKerasModel_build_train (recv1 @ kw1) kw2 \<in> set ?C"
    by (metis nth_mem)
  note mcA = T [THEN conjunct2, THEN conjunct2, THEN conjunct1, rule_format, OF memA]
  note mcT = T [THEN conjunct2, THEN conjunct2, THEN conjunct2, THEN conjunct1, rule_format,
      OF memT]
  from K [THEN conjunct1] 2 M [THEN conjunct2, THEN conjunct1] memA mcA 6
    N [THEN conjunct2, THEN conjunct1] memT mcT
  have mtnet: "\<exists>kw0 a0 recv1 kw1 recv2 x kw2.
     hd ?C = Call_MTNetKerasModel_init kw0
     \<and> MTNetKerasModel_init sample_ext kw0 = Inr a0
     \<and> ?C ! 1 = Call_MTNetKerasModel_get_attributes recv1 kw1
     \<and> Call_MTNetKerasModel_get_attributes recv1 kw1 \<in> set ?C
     \<and> map_of kw1 ''mc'' = Some (PBool True)
     \<and> MTNetKerasModel_get_attributes sample_ext recv1 kw1 = Inr (recv2, x)
     \<and> ?C ! 2 = Call_MTNetKerasModel_build_train recv2 kw2
     \<and> Call_MTNetKerasModel_build_train recv2 kw2 \<in> set ?C
     \<and> map_of kw2 ''mc'' = Some (PBool True)"
    by (intro exI conjI)
  from lstm mtnet show ?thesis
    by (intro conjI)
qed

subsection \<open>The abstract base class\<close>

text \<open>
  Claim C6. \<^verbatim>\<open>Forecaster\<close> is a contract that requires a way to build the model:
  \<^verbatim>\<open>_build\<close> is abstract, so calling \<^verbatim>\<open>Forecaster()\<close> raises \<^verbatim>\<open>TypeError\<close>, in every
  state and with every external library, and changes nothing; both leaf classes define
  \<^verbatim>\<open>_build\<close> concretely, have no abstract method left and can be instantiated.
\<close>

theorem Forecaster_is_abstract:
  "new_Forecaster E s = (Inl TypeError, s)
   \<and> abstractmethods Forecaster = [''_build'']
   \<and> map_of LSTMForecaster_namespace ''_build'' = Some False
   \<and> map_of MTNetForecaster_namespace ''_build'' = Some False
   \<and> abstractmethods LSTMForecaster = []
   \<and> abstractmethods MTNetForecaster = []
   \<and> fst (object_new LSTMForecaster s) = Inr (next_addr s)
   \<and> fst (object_new MTNetForecaster s) = Inr (next_addr s)"
  by (simp del: abstractmethods.simps
      add: new_Forecaster_def object_new_def bindS_def abstractmethods_Forecaster
        abstractmethods_LSTMForecaster abstractmethods_MTNetForecaster
        LSTMForecaster_namespace_def MTNetForecaster_namespace_def alloc_def)

subsection \<open>No shared state\<close>

text \<open>
  Claim C7 as stated says that constructing a forecaster writes only attributes of the
  instance being constructed. \<^verbatim>\<open>LSTMForecaster._build\<close> also assigns an attribute of
  another object: \<^verbatim>\<open>internal.feature_num = self.feature_dim\<close> sets \<^verbatim>\<open>feature_num\<close> on
  the internal \<^verbatim>\<open>LSTMKerasModel\<close> it has just created. Constructing an
  \<^verbatim>\<open>LSTMForecaster\<close> with the default arguments in the empty state returns the instance
  at address 0 and assigns \<^verbatim>\<open>feature_num\<close> of the object at address 1, an
  \<^verbatim>\<open>LSTMKerasModel\<close>.
\<close>

theorem construction_writes_internal_model_counterexample:
  "fst (new_LSTMForecaster sample_ext (PInt 1) (PInt 1) (PInt 16) (PFloat 0.2) (PInt 8)
          (PFloat 0.2) (PStr ''mean_squared_error'') (PFloat 0.001) (PBool False)
          empty_state) = Inr 0
   \<and> (1, ''feature_num'')
       \<in> set (writes_since empty_state
           (snd (new_LSTMForecaster sample_ext (PInt 1) (PInt 1) (PInt 16) (PFloat 0.2)
                   (PInt 8) (PFloat 0.2) (PStr ''mean_squared_error'') (PFloat 0.001)
                   (PBool False) empty_state)))
   \<and> (\<exists>ob. heap (snd (new_LSTMForecaster sample_ext (PInt 1) (PInt 1) (PInt 16)
                        (PFloat 0.2) (PInt 8) (PFloat 0.2) (PStr ''mean_squared_error'')
                        (PFloat 0.001) (PBool False) empty_state)) 1 = Some ob
         \<and> cls_of ob = LSTMKerasModel
         \<and> map_of (attrs ob) ''feature_num'' = Some (PInt 1))"
  by (simp add: new_LSTMForecaster_eq sample_ext_def empty_state_def writes_since_def)

text \<open>
  Claim C7, amended. Construction is parameter passing without shared state. The
  attribute assignments that a construction executes are on the instance under
  construction, with one exception: \<^verbatim>\<open>LSTMForecaster._build\<close> assigns \<^verbatim>\<open>feature_num\<close>
  of the internal model that the same construction has created (the object at the next
  address, an \<^verbatim>\<open>LSTMKerasModel\<close>). \<^verbatim>\<open>MTNetForecaster\<close> assigns attributes of its own
  instance only. Whatever the outcome, every object that existed before the construction
  is left as it was, each of its attributes included, and a constructed instance is a new
  one. So for two forecaster instances, constructing the second leaves every attribute of
  the first unchanged.
\<close>

theorem construction_frame:
  "list_all
     (\<lambda>(a, k). a = next_addr s
        \<or> (a = Suc (next_addr s) \<and> k = ''feature_num''
            \<and> (\<exists>ob. heap (snd (new_LSTMForecaster E h fd ua da ub db mt lr u s)) a = Some ob
                  \<and> cls_of ob = LSTMKerasModel)))
     (writes_since s (snd (new_LSTMForecaster E h fd ua da ub db mt lr u s)))
   \<and> list_all (\<lambda>(a, k). a = next_addr s)
       (writes_since s (snd (new_MTNetForecaster E h fd mt u s)))
   \<and> (\<forall>a. a < next_addr s \<longrightarrow>
         heap (snd (new_LSTMForecaster E h fd ua da ub db mt lr u s)) a = heap s a
         \<and> (\<forall>k. fst (getattr a k (snd (new_LSTMForecaster E h fd ua da ub db mt lr u s))) =
                  fst (getattr a k s)))
   \<and> (\<forall>self. fst (new_LSTMForecaster E h fd ua da ub db mt lr u s) = Inr self \<longrightarrow>
         self = next_addr s
         \<and> self < next_addr (snd (new_LSTMForecaster E h fd ua da ub db mt lr u s)))
   \<and> (\<forall>a. a < next_addr s \<longrightarrow>
         heap (snd (new_MTNetForecaster E h fd mt u s)) a = heap s a
         \<and> (\<forall>k. fst (getattr a k (snd (new_MTNetForecaster E h fd mt u s))) =
                  fst (getattr a k s)))
   \<and> (\<forall>self. fst (new_MTNetForecaster E h fd mt u s) = Inr self \<longrightarrow>
         self = next_addr s \<and> self < next_addr (snd (new_MTNetForecaster E h fd mt u s)))"
proof (intro conjI allI impI)
  show "list_all
     (\<lambda>(a, k). a = next_addr s
        \<or> (a = Suc (next_addr s) \<and> k = ''feature_num''
            \<and> (\<exists>ob. heap (snd (new_LSTMForecaster E h fd ua da ub db mt lr u s)) a = Some ob
                  \<and> cls_of ob = LSTMKerasModel)))
     (writes_since s (snd (new_LSTMForecaster E h fd ua da ub db mt lr u s)))"
    by (cases rule: new_LSTMForecaster_cases [where E = E and h = h and fd = fd and ua = ua
          and da = da and ub = ub and db = db and m = mt and lr = lr and u = u and s = s])
      (simp_all add: writes_since_def)
  show "list_all (\<lambda>(a, k). a = next_addr s)
       (writes_since s (snd (new_MTNetForecaster E h fd mt u s)))"
    by (cases rule: new_MTNetForecaster_cases [where E = E and h = h and fd = fd and m = mt
          and u = u and s = s])
      (simp_all add: writes_since_def)
next
  fix a assume a: "a < next_addr s"
  show 1: "heap (snd (new_LSTMForecaster E h fd ua da ub db mt lr u s)) a = heap s a"
    using a
    by (cases rule: new_LSTMForecaster_cases [where E = E and h = h and fd = fd and ua = ua
          and da = da and ub = ub and db = db and m = mt and lr = lr and u = u and s = s])
      simp_all
  show "fst (getattr a k (snd (new_LSTMForecaster E h fd ua da ub db mt lr u s))) =
          fst (getattr a k s)" for k
    by (simp add: getattr_def 1 split: option.splits)
  show 2: "heap (snd (new_MTNetForecaster E h fd mt u s)) a = heap s a"
    using a
    by (cases rule: new_MTNetForecaster_cases [where E = E and h = h and fd = fd and m = mt
          and u = u and s = s])
      simp_all
  show "fst (getattr a k (snd (new_MTNetForecaster E h fd mt u s))) = fst (getattr a k s)"
    for k
    by (simp add: getattr_def 2 split: option.splits)
next
  fix self assume "fst (new_LSTMForecaster E h fd ua da ub db mt lr u s) = Inr self"
  then show "self = next_addr s"
    "self < next_addr (snd (new_LSTMForecaster E h fd ua da ub db mt lr u s))"
    by (cases rule: new_LSTMForecaster_cases [where E = E and h = h and fd = fd and ua = ua
          and da = da and ub = ub and db = db and m = mt and lr = lr and u = u and s = s];
        simp)+
next
  fix self assume "fst (new_MTNetForecaster E h fd mt u s) = Inr self"
  then show "self = next_addr s"
    "self < next_addr (snd (new_MTNetForecaster E h fd mt u s))"
    by (cases rule: new_MTNetForecaster_cases [where E = E and h = h and fd = fd and m = mt
          and u = u and s = s]; simp)+
qed

theorem construction_frame_witness:
  "\<exists>a s1 b s2 c s3.
     new_LSTMForecaster sample_ext (PInt 3) (PInt 2) (PInt 16) (PFloat 0.2) (PInt 8)
       (PFloat 0.2) (PStr ''mean_squared_error'') (PFloat 0.001) (PBool True)
       empty_state = (Inr a, s1)
     \<and> new_MTNetForecaster sample_ext (PInt 5) (PInt 4) (PStr ''mae'') (PBool False) s1 =
         (Inr b, s2)
     \<and> new_LSTMForecaster sample_ext (PInt 7) (PInt 6) (PInt 32) (PFloat 0.1) (PInt 4)
         (PFloat 0.1) (PStr ''mae'') (PFloat 0.01) (PBool False) s1 = (Inr c, s3)
     \<and> a \<noteq> b \<and> a \<noteq> c
     \<and> heap s2 a = heap s1 a \<and> heap s3 a = heap s1 a
     \<and> fst (getattr a ''horizon'' s1) = Inr (PInt 3)
     \<and> fst (getattr a ''horizon'' s2) = Inr (PInt 3)
     \<and> fst (getattr a ''horizon'' s3) = Inr (PInt 3)
     \<and> a \<notin> fst ` set (writes_since s1 s2)
     \<and> a \<notin> fst ` set (writes_since s1 s3)"
proof -
  obtain a s1 where h1: "new_LSTMForecaster sample_ext (PInt 3) (PInt 2) (PInt 16)
      (PFloat 0.2) (PInt 8) (PFloat 0.2) (PStr ''mean_squared_error'') (PFloat 0.001)
      (PBool True) empty_state = (Inr a, s1)"
    and g1: "fst (getattr a ''horizon'' s1) = Inr (PInt 3)"
    using sample_LSTMForecaster_runs by (metis prod.collapse)
  obtain b s2 where h2: "new_MTNetForecaster sample_ext (PInt 5) (PInt 4) (PStr ''mae'')
      (PBool False) s1 = (Inr b, s2)"
    using sample_MTNetForecaster_runs by (metis prod.collapse)
  obtain c s3 where h3: "new_LSTMForecaster sample_ext (PInt 7) (PInt 6) (PInt 32)
      (PFloat 0.1) (PInt 4) (PFloat 0.1) (PStr ''mae'') (PFloat 0.01) (PBool False) s1 =
      (Inr c, s3)"
    using sample_LSTMForecaster_runs by (metis prod.collapse)
  note A = construction_frame [where s = empty_state and E = sample_ext and h = "PInt 3"
      and fd = "PInt 2" and mt = "PStr ''mean_squared_error''" and lr = "PFloat 0.001"
      and u = "PBool True" and ua = "PInt 16" and da = "PFloat 0.2" and ub = "PInt 8"
      and db = "PFloat 0.2", unfolded h1 fst_conv snd_conv]
  note B = construction_frame [where s = s1 and E = sample_ext and h = "PInt 5"
      and fd = "PInt 4" and mt = "PStr ''mae''" and lr = "PFloat 0.01"
      and u = "PBool False" and ua = "PInt 32" and da = "PFloat 0.1" and ub = "PInt 4"
      and db = "PFloat 0.1", unfolded h2 fst_conv snd_conv]
  note C = construction_frame [where s = s1 and E = sample_ext and h = "PInt 7"
      and fd = "PInt 6" and mt = "PStr ''mae''" and lr = "PFloat 0.01"
      and u = "PBool False" and ua = "PInt 32" and da = "PFloat 0.1" and ub = "PInt 4"
      and db = "PFloat 0.1", unfolded h3 fst_conv snd_conv]
  from A have a: "a < next_addr s1" by simp
  from B a have b: "a \<noteq> b" "heap s2 a = heap s1 a"
    "fst (getattr a ''horizon'' s2) = fst (getattr a ''horizon'' s1)"
    by auto
  from C a have c: "a \<noteq> c" "heap s3 a = heap s1 a"
    "fst (getattr a ''horizon'' s3) = fst (getattr a ''horizon'' s1)"
    by auto
  from B have "\<forall>x \<in> set (writes_since s1 s2). fst x = next_addr s1"
    by (auto simp: list_all_iff)
  with a have wb: "a \<notin> fst ` set (writes_since s1 s2)"
    by auto
  from C have "\<forall>x \<in> set (writes_since s1 s3). fst x = next_addr s1 \<or> fst x = Suc (next_addr s1)"
    by (auto simp: list_all_iff)
  with a have wc: "a \<notin> fst ` set (writes_since s1 s3)"
    by auto
  from h1 h2 h3 g1 b c wb wc show ?thesis by auto
qed

subsection \<open>The internal model of \<^verbatim>\<open>MTNetForecaster\<close>\<close>

text \<open>
  Claim C9. After every successful construction of an \<^verbatim>\<open>MTNetForecaster\<close>,
  \<^verbatim>\<open>self.internal\<close> refers to the \<^verbatim>\<open>MTNetKerasModel\<close> instance created inside
  \<^verbatim>\<open>_build\<close> (an instance that did not exist before the construction), not to
  \<^verbatim>\<open>None\<close>, although \<^verbatim>\<open>__init__\<close> first sets it to \<^verbatim>\<open>None\<close>. So
  \<^verbatim>\<open>preprocess_input(x)\<close> is the call \<^verbatim>\<open>_gen_hist_inputs(x)\<close> on that instance: it
  raises what that call raises and returns what that call returns.
\<close>

theorem MTNetForecaster_internal_set:
  assumes "fst (new_MTNetForecaster E h fd mt u s) = Inr self"
  shows "\<exists>i ob. fst (getattr self ''internal'' (snd (new_MTNetForecaster E h fd mt u s))) =
             Inr (PRef i)
           \<and> next_addr s \<le> i \<and> i < next_addr (snd (new_MTNetForecaster E h fd mt u s))
           \<and> heap (snd (new_MTNetForecaster E h fd mt u s)) i = Some ob
           \<and> cls_of ob = MTNetKerasModel
           \<and> MTNetForecaster_preprocess_input E self x
               (snd (new_MTNetForecaster E h fd mt u s)) =
               call_ext (MTNetKerasModel_gen_hist_inputs E)
                 Call_MTNetKerasModel_gen_hist_inputs i x
                 (snd (new_MTNetForecaster E h fd mt u s))
           \<and> fst (MTNetForecaster_preprocess_input E self x
                    (snd (new_MTNetForecaster E h fd mt u s))) =
               map_sum id snd (MTNetKerasModel_gen_hist_inputs E (attrs ob) x)"
proof (cases rule: new_MTNetForecaster_cases [where E = E and h = h and fd = fd and m = mt
          and u = u and s = s])
  case (ctor_raises e)
  with assms show ?thesis by simp
next
  case (attributes_raises a0 e)
  with assms show ?thesis by simp
next
  case (train_raises a0 recva ignored e)
  with assms show ?thesis by simp
next
  case (base_raises a0 recva ignored recvb r e)
  with assms show ?thesis by simp
next
  case (returns a0 recva ignored recvb r b)
  let ?s' = "snd (new_MTNetForecaster E h fd mt u s)"
  let ?i = "Suc (next_addr s)"
  let ?ob = "\<lparr>cls_of = MTNetKerasModel, attrs = recvb, base = None\<rparr>"
  from assms returns have self: "self = next_addr s"
    by simp
  have 1: "getattr self ''internal'' ?s' = (Inr (PRef ?i), ?s')"
    by (simp add: getattr_def self returns)
  have 2: "heap ?s' ?i = Some ?ob"
    by (simp add: returns)
  have 3: "method_receiver MTNetKerasModel (PRef ?i) ?s' = (Inr ?i, ?s')"
    by (simp add: method_receiver_def 2)
  have 4: "MTNetForecaster_preprocess_input E self x ?s' =
             call_ext (MTNetKerasModel_gen_hist_inputs E)
               Call_MTNetKerasModel_gen_hist_inputs ?i x ?s'"
    by (simp add: MTNetForecaster_preprocess_input_def bindS_def 1 3)
  have 5: "fst (MTNetForecaster_preprocess_input E self x ?s') =
             map_sum id snd (MTNetKerasModel_gen_hist_inputs E (attrs ?ob) x)"
    unfolding 4 by (simp add: call_ext_def 2 Let_def split: sum.splits prod.splits)
  have 6: "next_addr ?s' = Suc (Suc (next_addr s))"
    by (simp add: returns)
  from 1 2 4 5 6 show ?thesis
    by (intro exI [of _ ?i] exI [of _ ?ob]) simp
qed

theorem MTNetForecaster_internal_set_witness:
  "\<exists>self i ob.
     fst (new_MTNetForecaster sample_ext (PInt 3) (PInt 2) (PStr ''mean_squared_error'')
            (PBool True) empty_state) = Inr self
     \<and> fst (getattr self ''internal''
              (snd (new_MTNetForecaster sample_ext (PInt 3) (PInt 2)
                      (PStr ''mean_squared_error'') (PBool True) empty_state))) =
         Inr (PRef i)
     \<and> heap (snd (new_MTNetForecaster sample_ext (PInt 3) (PInt 2)
                    (PStr ''mean_squared_error'') (PBool True) empty_state)) i = Some ob
     \<and> cls_of ob = MTNetKerasModel
     \<and> fst (MTNetForecaster_preprocess_input sample_ext self (PInt 7)
              (snd (new_MTNetForecaster sample_ext (PInt 3) (PInt 2)
                      (PStr ''mean_squared_error'') (PBool True) empty_state))) =
         Inr (PList [PInt 7, PInt 7])"
proof -
  obtain self where h: "fst (new_MTNetForecaster sample_ext (PInt 3) (PInt 2)
      (PStr ''mean_squared_error'') (PBool True) empty_state) = Inr self"
    using sample_MTNetForecaster_runs by blast
  from MTNetForecaster_internal_set [OF h, of "PInt 7"]
  obtain i ob where
    "fst (getattr self ''internal''
            (snd (new_MTNetForecaster sample_ext (PInt 3) (PInt 2)
                    (PStr ''mean_squared_error'') (PBool True) empty_state))) =
       Inr (PRef i)"
    "heap (snd (new_MTNetForecaster sample_ext (PInt 3) (PInt 2)
                  (PStr ''mean_squared_error'') (PBool True) empty_state)) i = Some ob"
    "cls_of ob = MTNetKerasModel"
    "fst (MTNetForecaster_preprocess_input sample_ext self (PInt 7)
            (snd (new_MTNetForecaster sample_ext (PInt 3) (PInt 2)
                    (PStr ''mean_squared_error'') (PBool True) empty_state))) =
       map_sum id snd (MTNetKerasModel_gen_hist_inputs sample_ext (attrs ob) (PInt 7))"
    by blast
  moreover have
    "map_sum id snd (MTNetKerasModel_gen_hist_inputs sample_ext (attrs ob) (PInt 7)) =
       Inr (PList [PInt 7, PInt 7])"
    by (simp add: sample_ext_def)
  ultimately show ?thesis using h by auto
qed

subsection \<open>The feature dimension of \<^verbatim>\<open>LSTMForecaster\<close>\<close>

text \<open>
  Claim C10. \<^verbatim>\<open>LSTMForecaster\<close> does not put \<^verbatim>\<open>feature_dim\<close> into
  \<^verbatim>\<open>model_config\<close>. For every value of \<^verbatim>\<open>feature_dim\<close>, \<^verbatim>\<open>_build\<close> assigns it to
  the attribute \<^verbatim>\<open>feature_num\<close> of the internal model after constructing the model and
  before calling its \<^verbatim>\<open>_build\<close>: the first external call is the class call of the
  internal model, which is not given it; whenever that call returns, with the attributes
  \<open>a0\<close> of the new model, the first two external calls are that class call and
  \<^verbatim>\<open>_build\<close>, whose receiver is \<open>a0\<close> with \<^verbatim>\<open>feature_num\<close> set to the
  \<^verbatim>\<open>feature_dim\<close> argument and whose keyword arguments do not hold it.
\<close>

theorem LSTMForecaster_feature_num:
  "\<exists>cfg kw0.
     fst (getattr (next_addr s) ''model_config''
            (snd (new_LSTMForecaster E h fd ua da ub db mt lr u s))) = Inr (PDict cfg)
     \<and> map_of cfg ''feature_dim'' = None \<and> map_of cfg ''feature_num'' = None
     \<and> hd (calls_since s (snd (new_LSTMForecaster E h fd ua da ub db mt lr u s))) =
         Call_LSTMKerasModel_init kw0
     \<and> map_of kw0 ''feature_num'' = None
     \<and> (\<forall>a0. LSTMKerasModel_init E kw0 = Inr a0 \<longrightarrow>
           (\<exists>recv kw.
              take 2 (calls_since s (snd (new_LSTMForecaster E h fd ua da ub db mt lr u s))) =
                [Call_LSTMKerasModel_init kw0, Call_LSTMKerasModel_build recv kw]
              \<and> recv = AList.update ''feature_num'' fd a0
              \<and> map_of recv ''feature_num'' = Some fd
              \<and> map_of kw ''feature_num'' = None))"
  by (cases rule: new_LSTMForecaster_cases [where E = E and h = h and fd = fd and ua = ua
        and da = da and ub = ub and db = db and m = mt and lr = lr and u = u and s = s])
    (simp_all add: calls_since_def getattr_def AList.update_conv')

theorem LSTMForecaster_feature_num_witness:
  "\<exists>kw0 a0 recv kw.
     LSTMKerasModel_init sample_ext kw0 = Inr a0
     \<and> map_of a0 ''feature_num'' = Some PNone
     \<and> take 2 (calls_since empty_state
         (snd (new_LSTMForecaster sample_ext (PInt 3) (PInt 2) (PInt 16) (PFloat 0.2)
                 (PInt 8) (PFloat 0.2) (PStr ''mean_squared_error'') (PFloat 0.001)
                 (PBool True) empty_state))) =
         [Call_LSTMKerasModel_init kw0, Call_LSTMKerasModel_build recv kw]
     \<and> map_of recv ''feature_num'' = Some (PInt 2)"
proof -
  note T = LSTMForecaster_feature_num [where E = sample_ext and s = empty_state
      and h = "PInt 3" and fd = "PInt 2" and ua = "PInt 16" and da = "PFloat 0.2"
      and ub = "PInt 8" and db = "PFloat 0.2" and mt = "PStr ''mean_squared_error''"
      and lr = "PFloat 0.001" and u = "PBool True"]
  from T obtain kw0 where
    0: "map_of kw0 ''feature_num'' = None"
    and 1: "\<And>a0. LSTMKerasModel_init sample_ext kw0 = Inr a0 \<Longrightarrow>
          \<exists>recv kw.
             take 2 (calls_since empty_state
               (snd (new_LSTMForecaster sample_ext (PInt 3) (PInt 2) (PInt 16) (PFloat 0.2)
                       (PInt 8) (PFloat 0.2) (PStr ''mean_squared_error'') (PFloat 0.001)
                       (PBool True) empty_state))) =
               [Call_LSTMKerasModel_init kw0, Call_LSTMKerasModel_build recv kw]
             \<and> map_of recv ''feature_num'' = Some (PInt 2)"
    by blast
  have 2: "LSTMKerasModel_init sample_ext kw0 =
      Inr (kw0 @ [(''feature_num'', PNone), (''model'', PNone)])"
    by (simp add: sample_ext_def)
  have 3: "map_of (kw0 @ [(''feature_num'', PNone), (''model'', PNone)]) ''feature_num'' =
      Some PNone"
    using 0 by (simp add: map_add_def)
  from 1 [OF 2] 2 3 show ?thesis by blast
qed

end
